theory Spec2Isabelle
  imports Main "HOL-Library.Multiset"
begin

section \<open>JavaScript strings\<close>

text \<open>
  A string is a list of code units. The model covers the code units 0 to 255 (Latin-1),
  which hold every pattern, table key and separator the program compares against.
\<close>

text \<open>The class \<^verbatim>\<open>\s\<close> of regular expressions, which is also what \<^verbatim>\<open>trim\<close> and \<^verbatim>\<open>parseInt\<close> skip:
  TAB, LF, VT, FF, CR, SPACE and NBSP.\<close>

definition isWhiteSpace :: "char \<Rightarrow> bool" where
  "isWhiteSpace c = (of_char c \<in> {9, 10, 11, 12, 13, 32, 160 :: nat})"

definition trim :: "string \<Rightarrow> string" where
  "trim s = rev (dropWhile isWhiteSpace (rev (dropWhile isWhiteSpace s)))"

definition toLowerChar :: "char \<Rightarrow> char" where
  "toLowerChar c =
     (let n = of_char c :: nat
      in if (65 \<le> n \<and> n \<le> 90) \<or> (192 \<le> n \<and> n \<le> 222 \<and> n \<noteq> 215)
         then char_of (n + 32) else c)"

definition toLowerCase :: "string \<Rightarrow> string" where
  "toLowerCase s = map toLowerChar s"

text \<open>\<^verbatim>\<open>toUpperCase\<close>: the letters a to z and the Latin-1 lower-case letters. The
  results that leave Latin-1 (for the code units 181, 223 and 255) are left as they are:
  the only use of the function is a lookup among keys made of \<^verbatim>\<open>#\<close>, digits and A to F.\<close>

definition toUpperChar :: "char \<Rightarrow> char" where
  "toUpperChar c =
     (let n = of_char c :: nat
      in if (97 \<le> n \<and> n \<le> 122) \<or> (224 \<le> n \<and> n \<le> 254 \<and> n \<noteq> 247)
         then char_of (n - 32) else c)"

definition toUpperCase :: "string \<Rightarrow> string" where
  "toUpperCase s = map toUpperChar s"

fun startsWith :: "string \<Rightarrow> string \<Rightarrow> bool" where
  "startsWith s [] = True"
| "startsWith [] (p # ps) = False"
| "startsWith (c # cs) (p # ps) = (c = p \<and> startsWith cs ps)"

text \<open>\<^verbatim>\<open>s.includes(p)\<close>: \<open>p\<close> occurs in \<open>s\<close> as a contiguous substring.\<close>

fun includes_str :: "string \<Rightarrow> string \<Rightarrow> bool" where
  "includes_str [] p = (p = [])"
| "includes_str (c # cs) p = (startsWith (c # cs) p \<or> includes_str cs p)"

text \<open>\<^verbatim>\<open>s.replace(/pat/g, rep)\<close> for a literal, non-empty pattern: the occurrences are
  replaced from left to right, without rescanning the replacement.\<close>

fun replaceAll :: "string \<Rightarrow> string \<Rightarrow> string \<Rightarrow> string" where
  "replaceAll pat rep [] = []"
| "replaceAll pat rep (c # cs) =
     (if startsWith (c # cs) pat then rep @ replaceAll pat rep (drop (length pat - 1) cs)
      else c # replaceAll pat rep cs)"

text \<open>\<^verbatim>\<open>x || ""\<close> on the result of \<^verbatim>\<open>getAttribute\<close>, which is \<^verbatim>\<open>null\<close> for a missing
  attribute.\<close>

definition orEmpty :: "string option \<Rightarrow> string" where
  "orEmpty a = (case a of None \<Rightarrow> [] | Some s \<Rightarrow> s)"

definition orZero :: "string option \<Rightarrow> string" where
  "orZero a = (case a of None \<Rightarrow> ''0'' | Some s \<Rightarrow> (if s = [] then ''0'' else s))"

definition isDigit :: "char \<Rightarrow> bool" where
  "isDigit c = (48 \<le> (of_char c :: nat) \<and> (of_char c :: nat) \<le> 57)"

definition digitVal :: "char \<Rightarrow> int" where
  "digitVal c = int (of_char c) - 48"

text \<open>\<^verbatim>\<open>parseInt(s, 10)\<close>: leading white space, an optional sign, the longest run of
  decimal digits; \<^verbatim>\<open>NaN\<close> (here \<open>None\<close>) when there is no digit. Numbers are mathematical
  integers.\<close>

definition parseInt :: "string \<Rightarrow> int option" where
  "parseInt s =
     (let t = dropWhile isWhiteSpace s;
          neg = (t \<noteq> [] \<and> hd t = CHR ''-'');
          u = (if t \<noteq> [] \<and> (hd t = CHR ''-'' \<or> hd t = CHR ''+'') then tl t else t);
          ds = takeWhile isDigit u;
          v = foldl (\<lambda>acc d. 10 * acc + digitVal d) 0 ds
      in if ds = [] then None else Some (if neg then - v else v))"

section \<open>models.ts\<close>

datatype MealType = BREAKFAST | LUNCH | SNACK

datatype FoodCategory =
    MAIN_ENTREE
  | VEGETARIAN_ENTREE
  | ELEMENTARY_SECONDARY_SECOND_CHOICE
  | ELEMENTARY_SECONDARY_SIDE_DISH
  | AFTERSCHOOL_SNACK
  | PRESCHOOL_SNACK
  | SAC_SNACK
  | OTHER

text \<open>\<^verbatim>\<open>MenuItemData\<close>: the optional fields are options, \<open>None\<close> standing for a field that
  is missing or \<^verbatim>\<open>null\<close> (the constructor reads both with \<^verbatim>\<open>??\<close>). It is also the shape of
  the serialized form of a \<^verbatim>\<open>MenuItem\<close>.\<close>

record MenuItemData =
  name :: string
  description :: "string option"
  category :: "FoodCategory option"
  isVegetarian :: "bool option"
  isVegan :: "bool option"
  allergens :: "string list option"
  nutritionalInfo :: "(string \<times> string) list option"

record MenuItem =
  name :: string
  description :: "string option"
  category :: FoodCategory
  isVegetarian :: bool
  isVegan :: bool
  allergens :: "string list"
  nutritionalInfo :: "(string \<times> string) list"

definition veganTerms :: "string list" where
  "veganTerms = [''vegan'', ''plant forward'', ''plant-based'']"

definition vegetarianTerms :: "string list" where
  "vegetarianTerms = [''vegetarian'', ''veggie'', ''tofu'', ''bean'', ''lentil'']"

text \<open>The constructor of \<^verbatim>\<open>MenuItem\<close>.\<close>

definition newMenuItem :: "MenuItemData \<Rightarrow> MenuItem" where
  "newMenuItem data =
     (let nameLower = toLowerCase (MenuItemData.name data);
          isVegan' = (case MenuItemData.isVegan data of
                        Some b \<Rightarrow> b
                      | None \<Rightarrow> list_ex (\<lambda>t. includes_str nameLower t) veganTerms);
          isVegetarian' = (case MenuItemData.isVegetarian data of
                        Some b \<Rightarrow> b
                      | None \<Rightarrow> isVegan' \<or> list_ex (\<lambda>t. includes_str nameLower t) vegetarianTerms)
      in \<lparr> MenuItem.name = MenuItemData.name data,
           MenuItem.description = MenuItemData.description data,
           MenuItem.category = (case MenuItemData.category data of Some c \<Rightarrow> c | None \<Rightarrow> OTHER),
           MenuItem.isVegetarian = isVegetarian',
           MenuItem.isVegan = isVegan',
           MenuItem.allergens = (case MenuItemData.allergens data of Some a \<Rightarrow> a | None \<Rightarrow> []),
           MenuItem.nutritionalInfo =
             (case MenuItemData.nutritionalInfo data of Some n \<Rightarrow> n | None \<Rightarrow> []) \<rparr>)"

definition MenuItem_toJSON :: "MenuItem \<Rightarrow> MenuItemData" where
  "MenuItem_toJSON this =
     \<lparr> MenuItemData.name = MenuItem.name this,
       MenuItemData.description = MenuItem.description this,
       MenuItemData.category = Some (MenuItem.category this),
       MenuItemData.isVegetarian = Some (MenuItem.isVegetarian this),
       MenuItemData.isVegan = Some (MenuItem.isVegan this),
       MenuItemData.allergens = Some (MenuItem.allergens this),
       MenuItemData.nutritionalInfo = Some (MenuItem.nutritionalInfo this) \<rparr>"

definition MenuItem_fromJSON :: "MenuItemData \<Rightarrow> MenuItem" where
  "MenuItem_fromJSON data = newMenuItem data"


section \<open>Dates\<close>

text \<open>
  A \<^verbatim>\<open>Date\<close> is modelled by its local calendar day: the number of days from 1970-01-01
  to it. The time of day plays no part in the program: every date it keeps is a local
  noon (\<^verbatim>\<open>parseISO(s + "T12:00:00")\<close>), and the others are only formatted or asked for
  their weekday. The dates that the classes of \<^verbatim>\<open>models.ts\<close> hold and the dates that their
  methods are given are taken to be valid; the \<^verbatim>\<open>Invalid Date\<close> that \<^verbatim>\<open>new Date\<close> makes
  from numbers out of range is the value \<open>InvalidDate\<close> of the type \<open>DateObject\<close> below.
\<close>

type_synonym Date = int

definition daysBeforeYear :: "int \<Rightarrow> int" where
  "daysBeforeYear y =
     365 * (y - 1970) + ((y - 1) div 4 - (y - 1) div 100 + (y - 1) div 400) - 477"

definition isLeapYear :: "int \<Rightarrow> bool" where
  "isLeapYear y = (y mod 4 = 0 \<and> (y mod 100 \<noteq> 0 \<or> y mod 400 = 0))"

definition daysInMonth :: "int \<Rightarrow> int \<Rightarrow> int" where
  "daysInMonth y mi =
     (if mi = 1 then (if isLeapYear y then 29 else 28)
      else if mi \<in> {3, 5, 8, 10} then 30 else 31)"

text \<open>The days of the year \<open>y\<close> before its month of index \<open>mi\<close> (0 for January).\<close>

definition daysBeforeMonth :: "int \<Rightarrow> int \<Rightarrow> int" where
  "daysBeforeMonth y mi = sum_list (map (daysInMonth y) [0 .. mi - 1])"

text \<open>The calendar day of \<^verbatim>\<open>new Date(year, monthIndex, day)\<close>: a year from 0 to 99 means
  1900 + year, and a month index or a day out of range carries over into the next months
  and years.\<close>

definition newDate :: "int \<Rightarrow> int \<Rightarrow> int \<Rightarrow> Date" where
  "newDate y monthIndex d =
     (let yr = (if 0 \<le> y \<and> y \<le> 99 then 1900 + y else y);
          ym = yr + monthIndex div 12;
          mn = monthIndex mod 12
      in daysBeforeYear ym + daysBeforeMonth ym mn + d - 1)"

text \<open>\<^verbatim>\<open>getDay()\<close>: 0 for Sunday to 6 for Saturday; 1970-01-01 was a Thursday.\<close>

definition getDay :: "Date \<Rightarrow> int" where
  "getDay d = (d + 4) mod 7"

text \<open>\<^verbatim>\<open>addDays(d, k)\<close>, and \<^verbatim>\<open>x.setDate(d.getDate() + k)\<close> on a copy \<open>x\<close> of \<open>d\<close>.\<close>

definition addDays :: "Date \<Rightarrow> int \<Rightarrow> Date" where
  "addDays d k = d + k"

text \<open>
  The text \<^verbatim>\<open>yyyy-MM-dd\<close> of a date is modelled by the day it names. For the years 0001 to
  9999 the text determines the day, \<^verbatim>\<open>parseISO\<close> reads it back, and the order of
  JavaScript on two such texts is the order of the days.
\<close>

datatype IsoDate = IsoDate int

definition format_yyyy_MM_dd :: "Date \<Rightarrow> IsoDate" where
  "format_yyyy_MM_dd d = IsoDate d"

text \<open>\<^verbatim>\<open>parseISO(s + "T12:00:00")\<close>.\<close>

fun parseISO_noon :: "IsoDate \<Rightarrow> Date" where
  "parseISO_noon (IsoDate n) = n"

text \<open>\<^verbatim>\<open>a <= b\<close> on two such texts.\<close>

fun iso_le :: "IsoDate \<Rightarrow> IsoDate \<Rightarrow> bool" where
  "iso_le (IsoDate a) (IsoDate b) = (a \<le> b)"

text \<open>
  The object that \<^verbatim>\<open>new Date(year, monthIndex, day)\<close> returns. The constructor does not
  throw: when the time value is more than 8.64e15 milliseconds, that is 100,000,000
  days, away from 1970-01-01, the object is an \<^verbatim>\<open>Invalid Date\<close>. The bound is taken on the
  calendar day (the local time zone moves it by less than a day). Where JavaScript
  numbers round (above 9007199254740992) the date is far out of range, so mathematical integers
  give the same object.
\<close>

datatype DateObject = ValidDate Date | InvalidDate

definition isValidDay :: "int \<Rightarrow> bool" where
  "isValidDay n = (- 100000000 \<le> n \<and> n \<le> 100000000)"

definition newDateObject :: "int \<Rightarrow> int \<Rightarrow> int \<Rightarrow> DateObject" where
  "newDateObject y monthIndex d =
     (let n = newDate y monthIndex d
      in if isValidDay n then ValidDate n else InvalidDate)"

text \<open>\<^verbatim>\<open>format(date, "yyyy-MM-dd")\<close> of date-fns throws a \<^verbatim>\<open>RangeError\<close> on an
  \<^verbatim>\<open>Invalid Date\<close>.\<close>

datatype error = RangeError

fun format_DateObject :: "DateObject \<Rightarrow> error + IsoDate" where
  "format_DateObject (ValidDate d) = Inr (format_yyyy_MM_dd d)"
| "format_DateObject InvalidDate = Inl RangeError"

text \<open>date-fns with \<^verbatim>\<open>weekStartsOn: 1\<close>: the Monday of the week of a date, the Sunday that
  ends it, and whether two dates have the same Monday.\<close>

definition startOfWeek :: "Date \<Rightarrow> Date" where
  "startOfWeek d = d - (getDay d + 6) mod 7"

definition endOfWeek :: "Date \<Rightarrow> Date" where
  "endOfWeek d = d + (6 - (getDay d + 6) mod 7)"

definition isSameWeek :: "Date \<Rightarrow> Date \<Rightarrow> bool" where
  "isSameWeek a b = (startOfWeek a = startOfWeek b)"

section \<open>models.ts: the menu hierarchy\<close>

record DailyMenuData =
  date :: IsoDate
  mealType :: MealType
  menuItems :: "MenuItem list option"
  specialNotes :: "string list option"
  isSchoolDay :: "bool option"

record DailyMenu =
  date :: Date
  mealType :: MealType
  menuItems :: "MenuItem list"
  specialNotes :: "string list"
  isSchoolDay :: bool

definition newDailyMenu :: "DailyMenuData \<Rightarrow> DailyMenu" where
  "newDailyMenu data =
     \<lparr> DailyMenu.date = parseISO_noon (DailyMenuData.date data),
       DailyMenu.mealType = DailyMenuData.mealType data,
       DailyMenu.menuItems = (case DailyMenuData.menuItems data of Some xs \<Rightarrow> xs | None \<Rightarrow> []),
       DailyMenu.specialNotes =
         (case DailyMenuData.specialNotes data of Some xs \<Rightarrow> xs | None \<Rightarrow> []),
       DailyMenu.isSchoolDay =
         (case DailyMenuData.isSchoolDay data of Some b \<Rightarrow> b | None \<Rightarrow> True) \<rparr>"

text \<open>The serialized form of a \<^verbatim>\<open>DailyMenu\<close>, as \<^verbatim>\<open>fromJSON\<close> reads it.\<close>

record DailyMenuJSON =
  date :: IsoDate
  mealType :: MealType
  menuItems :: "MenuItemData list option"
  specialNotes :: "string list option"
  isSchoolDay :: "bool option"



record WeeklyMenuData =
  startDate :: IsoDate
  endDate :: IsoDate
  dailyMenus :: "DailyMenu list option"

record WeeklyMenu =
  startDate :: Date
  endDate :: Date
  dailyMenus :: "DailyMenu list"

definition newWeeklyMenu :: "WeeklyMenuData \<Rightarrow> WeeklyMenu" where
  "newWeeklyMenu data =
     \<lparr> WeeklyMenu.startDate = parseISO_noon (WeeklyMenuData.startDate data),
       WeeklyMenu.endDate = parseISO_noon (WeeklyMenuData.endDate data),
       WeeklyMenu.dailyMenus =
         (case WeeklyMenuData.dailyMenus data of Some xs \<Rightarrow> xs | None \<Rightarrow> []) \<rparr>"

record WeeklyMenuJSON =
  startDate :: IsoDate
  endDate :: IsoDate
  dailyMenus :: "DailyMenuJSON list option"



record MonthlyMenu =
  year :: int
  month :: int
  weeklyMenus :: "WeeklyMenu list"

record MonthlyMenuJSON =
  year :: int
  month :: int
  weeklyMenus :: "WeeklyMenuJSON list option"

definition addWeeklyMenu :: "MonthlyMenu \<Rightarrow> WeeklyMenu \<Rightarrow> MonthlyMenu" where
  "addWeeklyMenu this weeklyMenu =
     this \<lparr> MonthlyMenu.weeklyMenus := MonthlyMenu.weeklyMenus this @ [weeklyMenu] \<rparr>"

definition getAllDailyMenus :: "MonthlyMenu \<Rightarrow> DailyMenu list" where
  "getAllDailyMenus this = concat (map WeeklyMenu.dailyMenus (MonthlyMenu.weeklyMenus this))"

text \<open>\<^verbatim>\<open>getWeeklyMenuForDate\<close>; \<^verbatim>\<open>Array.prototype.find\<close> returns the first element that
  satisfies the test, and \<^verbatim>\<open>?? null\<close> turns its \<^verbatim>\<open>undefined\<close> into \<^verbatim>\<open>null\<close> (\<open>None\<close>).\<close>

definition getWeeklyMenuForDate :: "MonthlyMenu \<Rightarrow> Date \<Rightarrow> WeeklyMenu option" where
  "getWeeklyMenuForDate this targetDate =
     (let dayOfWeek = getDay targetDate;
          isWeekend = (dayOfWeek = 0 \<or> dayOfWeek = 6)
      in if isWeekend then
           (let daysUntilMonday = (if dayOfWeek = 0 then 1 else 2);
                nextMonday = addDays targetDate daysUntilMonday;
                nextMondayStr = format_yyyy_MM_dd nextMonday
            in find (\<lambda>menu. iso_le nextMondayStr (format_yyyy_MM_dd (WeeklyMenu.startDate menu)))
                 (MonthlyMenu.weeklyMenus this))
         else
           (let targetDateStr = format_yyyy_MM_dd targetDate
            in find (\<lambda>menu. iso_le (format_yyyy_MM_dd (WeeklyMenu.startDate menu)) targetDateStr
                            \<and> iso_le targetDateStr (format_yyyy_MM_dd (WeeklyMenu.endDate menu)))
                 (MonthlyMenu.weeklyMenus this)))"




section \<open>The streaming scraper: what both versions share\<close>

text \<open>
  The tag-open events of \<^verbatim>\<open>HTMLRewriter\<close>, in document order. An event is the element
  that one of the five selectors matched, with the attributes its handler reads
  (\<open>None\<close> for an attribute the element does not have). Each element is taken to match
  one selector.
\<close>

datatype Event =
    fsCalendarDaybox "string option"
  | fsCalendarDate "string option" "string option" "string option"
  | fsCalendarInfo
  | fsElementEventColorIcon "string option"
  | fsCalendarEventTitle "string option"

definition COLOR_MAPPINGS :: "(string \<times> FoodCategory) list" where
  "COLOR_MAPPINGS =
     [(''#220AFD'', MAIN_ENTREE),
      (''#52B73E'', VEGETARIAN_ENTREE),
      (''#000000'', ELEMENTARY_SECONDARY_SECOND_CHOICE),
      (''#EFE013'', ELEMENTARY_SECONDARY_SIDE_DISH),
      (''#BC0945'', MAIN_ENTREE),
      (''#F90303'', AFTERSCHOOL_SNACK),
      (''#651594'', PRESCHOOL_SNACK),
      (''#247632'', SAC_SNACK)]"

text \<open>\<^verbatim>\<open>style.match(/background:\s*([^;]+)/)\<close>: the first group of the leftmost match, if
  there is one. After \<^verbatim>\<open>background:\<close> the white space is skipped and the group runs to the
  next semicolon; when nothing but white space stands before the semicolon (or the end),
  the expression backtracks and the group is the last white-space character.\<close>

fun colorMatch :: "string \<Rightarrow> string option" where
  "colorMatch [] = None"
| "colorMatch (c # cs) =
     (if startsWith (c # cs) ''background:'' then
        (let r = drop 11 (c # cs);
             w = takeWhile isWhiteSpace r;
             t = dropWhile isWhiteSpace r
         in if t \<noteq> [] \<and> hd t \<noteq> CHR '';'' then Some (takeWhile (\<lambda>x. x \<noteq> CHR '';'') t)
            else if w \<noteq> [] then Some [last w]
            else colorMatch cs)
      else colorMatch cs)"

text \<open>The body of the colour handler after the test for an open item: the category to
  set, if the style has a background.\<close>

definition colorCategory :: "string option \<Rightarrow> FoodCategory option" where
  "colorCategory styleAttr =
     (let style = orEmpty styleAttr
      in case colorMatch style of
           None \<Rightarrow> None
         | Some g \<Rightarrow>
             (let color = toUpperCase (trim g)
              in Some (case map_of COLOR_MAPPINGS color of Some c \<Rightarrow> c | None \<Rightarrow> OTHER)))"

text \<open>Whether \<^verbatim>\<open>/\s+with\s+/\<close> matches at the very start of a text.\<close>

definition withSeparatorAt :: "string \<Rightarrow> bool" where
  "withSeparatorAt s =
     (s \<noteq> [] \<and> isWhiteSpace (hd s) \<and>
      (let r = dropWhile isWhiteSpace s
       in startsWith r ''with'' \<and> drop 4 r \<noteq> [] \<and> isWhiteSpace (hd (drop 4 r))))"

text \<open>\<^verbatim>\<open>text.split(/\s+with\s+/)\<close>, as far as the program looks at it: \<open>None\<close> when the
  result has one part (no match), and otherwise its first part, the text before the
  leftmost match.\<close>

fun splitWithHead :: "string \<Rightarrow> string option" where
  "splitWithHead [] = None"
| "splitWithHead (c # cs) =
     (if withSeparatorAt (c # cs) then Some []
      else map_option ((#) c) (splitWithHead cs))"

text \<open>\<^verbatim>\<open>parseMenuItemText\<close>, the same in both versions: the pair of the name and the
  description.\<close>

definition parseMenuItemText :: "string \<Rightarrow> string \<times> string" where
  "parseMenuItemText text =
     (let cleanText = replaceAll ''&#39;'' [CHR 0x27] (replaceAll ''&amp;'' ''&'' text)
      in case splitWithHead cleanText of
           Some part0 \<Rightarrow> (trim part0, cleanText)
         | None \<Rightarrow> (cleanText, cleanText))"

text \<open>The decoding of the title attribute in the title handler.\<close>

definition decodeTitle :: "string \<Rightarrow> string" where
  "decodeTitle title =
     replaceAll ''&quot;'' [CHR 0x22]
       (replaceAll ''&#39;'' [CHR 0x27] (replaceAll ''&amp;'' ''&'' title))"

text \<open>The item that the item-info handler starts.\<close>

definition freshMenuItem :: MenuItemData where
  "freshMenuItem =
     \<lparr> MenuItemData.name = [],
       MenuItemData.description = Some [],
       MenuItemData.category = Some OTHER,
       MenuItemData.isVegetarian = None,
       MenuItemData.isVegan = None,
       MenuItemData.allergens = Some [],
       MenuItemData.nutritionalInfo = Some [] \<rparr>"

text \<open>\<^verbatim>\<open>month >= 0 ? month + 1 : 0\<close> on the result of \<^verbatim>\<open>parseInt\<close>; every comparison with
  \<^verbatim>\<open>NaN\<close> is false.\<close>

definition adjustedMonth :: "int option \<Rightarrow> int" where
  "adjustedMonth monthN = (case monthN of Some m \<Rightarrow> (if m \<ge> 0 then m + 1 else 0) | None \<Rightarrow> 0)"

text \<open>The object \<^verbatim>\<open>new Date(year, adjustedMonth - 1, day)\<close> that the date handler makes, if
  its test \<^verbatim>\<open>day > 0 && adjustedMonth > 0 && year > 0\<close> passes.\<close>

definition dateOfAttributes ::
  "string option \<Rightarrow> string option \<Rightarrow> string option \<Rightarrow> DateObject option" where
  "dateOfAttributes dataDay dataMonth dataYear =
     (let dayN = parseInt (orZero dataDay);
          monthN = parseInt (orZero dataMonth);
          yearN = parseInt (orZero dataYear);
          adjMonth = adjustedMonth monthN
      in case dayN of
           None \<Rightarrow> None
         | Some d \<Rightarrow>
             (case yearN of
                None \<Rightarrow> None
              | Some y \<Rightarrow>
                  (if d > 0 \<and> adjMonth > 0 \<and> y > 0
                   then Some (newDateObject y (adjMonth - 1) d)
                   else None)))"

section \<open>The scraper with inline state (unnamed/part\_000)\<close>

record DayBox =
  date :: "DateObject option"
  menuItems :: "MenuItemData list"

record InlineState =
  currentDayBox :: "DayBox option"
  currentMenuItem :: "MenuItemData option"
  dayBoxes :: "DayBox list"

definition inline_isAdminAnnouncement :: "string \<Rightarrow> bool" where
  "inline_isAdminAnnouncement title =
     (let lowerTitle = toLowerCase title
      in includes_str lowerTitle ''no school'' \<or>
         includes_str lowerTitle ''winter break'' \<or>
         includes_str lowerTitle ''last day of school'' \<or>
         includes_str lowerTitle ''memorial day'' \<or>
         includes_str lowerTitle ''teacher'' \<or>
         includes_str lowerTitle ''spring break'' \<or>
         includes_str lowerTitle ''quarter ends'')"

text \<open>The completion of the open day box, at the next day box and at the end of the
  stream: the pending item is pushed if it has a name, and the box is saved if it has
  a date and an item. A \<^verbatim>\<open>Date\<close> object is truthy also when it is an \<^verbatim>\<open>Invalid Date\<close>.\<close>

definition inline_completeDayBox :: "InlineState \<Rightarrow> InlineState" where
  "inline_completeDayBox st =
     (case InlineState.currentDayBox st of
        None \<Rightarrow> st
      | Some box \<Rightarrow>
          (let box1 = (case InlineState.currentMenuItem st of
                         None \<Rightarrow> box
                       | Some item \<Rightarrow>
                           (if MenuItemData.name item \<noteq> []
                            then box \<lparr> DayBox.menuItems := DayBox.menuItems box @ [item] \<rparr>
                            else box));
               saved = (if DayBox.date box1 \<noteq> None \<and> DayBox.menuItems box1 \<noteq> []
                        then InlineState.dayBoxes st @ [box1]
                        else InlineState.dayBoxes st)
           in st \<lparr> InlineState.currentDayBox := Some box1, InlineState.dayBoxes := saved \<rparr>))"

definition inline_onDaybox :: "InlineState \<Rightarrow> string option \<Rightarrow> InlineState" where
  "inline_onDaybox st classAttr =
     (let st1 = inline_completeDayBox st;
          classNames = orEmpty classAttr
      in if includes_str classNames ''fsCalendarWeekendDayBox'' then
           st1 \<lparr> InlineState.currentDayBox := None, InlineState.currentMenuItem := None \<rparr>
         else if includes_str classNames ''fsStateHasEvents'' then
           st1 \<lparr> InlineState.currentDayBox := Some \<lparr> DayBox.date = None, DayBox.menuItems = [] \<rparr>,
                 InlineState.currentMenuItem := None \<rparr>
         else
           st1 \<lparr> InlineState.currentDayBox := None, InlineState.currentMenuItem := None \<rparr>)"

text \<open>The date handler. Its \<^verbatim>\<open>try\<close> block holds \<^verbatim>\<open>new Date\<close> and an assignment, and neither
  throws: the \<^verbatim>\<open>catch\<close> branch is never taken, and an \<^verbatim>\<open>Invalid Date\<close> is stored like any
  other date.\<close>

definition inline_onDate ::
  "InlineState \<Rightarrow> string option \<Rightarrow> string option \<Rightarrow> string option \<Rightarrow> InlineState" where
  "inline_onDate st dataDay dataMonth dataYear =
     (case dateOfAttributes dataDay dataMonth dataYear of
        None \<Rightarrow> st
      | Some d \<Rightarrow>
          (case InlineState.currentDayBox st of
             None \<Rightarrow> st
           | Some box \<Rightarrow> st \<lparr> InlineState.currentDayBox := Some (box \<lparr> DayBox.date := Some d \<rparr>) \<rparr>))"

definition inline_onInfo :: "InlineState \<Rightarrow> InlineState" where
  "inline_onInfo st =
     (let st1 = (case InlineState.currentMenuItem st of
                   None \<Rightarrow> st
                 | Some item \<Rightarrow>
                     (case InlineState.currentDayBox st of
                        None \<Rightarrow> st
                      | Some box \<Rightarrow>
                          (if MenuItemData.name item \<noteq> []
                           then st \<lparr> InlineState.currentDayBox :=
                                       Some (box \<lparr> DayBox.menuItems := DayBox.menuItems box @ [item] \<rparr>) \<rparr>
                           else st)))
      in if InlineState.currentDayBox st1 \<noteq> None
         then st1 \<lparr> InlineState.currentMenuItem := Some freshMenuItem \<rparr>
         else st1)"

definition inline_onColorIcon :: "InlineState \<Rightarrow> string option \<Rightarrow> InlineState" where
  "inline_onColorIcon st styleAttr =
     (case InlineState.currentMenuItem st of
        None \<Rightarrow> st
      | Some item \<Rightarrow>
          (case colorCategory styleAttr of
             None \<Rightarrow> st
           | Some cat \<Rightarrow>
               st \<lparr> InlineState.currentMenuItem := Some (item \<lparr> MenuItemData.category := Some cat \<rparr>) \<rparr>))"

definition inline_onTitle :: "InlineState \<Rightarrow> string option \<Rightarrow> InlineState" where
  "inline_onTitle st titleAttr =
     (case InlineState.currentMenuItem st of
        None \<Rightarrow> st
      | Some item \<Rightarrow>
          (let title = trim (orEmpty titleAttr)
           in if title \<noteq> [] then
                (let title' = decodeTitle title
                 in if \<not> inline_isAdminAnnouncement title' then
                      (case parseMenuItemText title' of
                         (name', description') \<Rightarrow>
                           st \<lparr> InlineState.currentMenuItem :=
                                  Some (item \<lparr> MenuItemData.name := name',
                                              MenuItemData.description := Some description' \<rparr>) \<rparr>)
                    else st)
              else st))"

fun inline_step :: "InlineState \<Rightarrow> Event \<Rightarrow> InlineState" where
  "inline_step st (fsCalendarDaybox classAttr) = inline_onDaybox st classAttr"
| "inline_step st (fsCalendarDate dataDay dataMonth dataYear) =
     inline_onDate st dataDay dataMonth dataYear"
| "inline_step st fsCalendarInfo = inline_onInfo st"
| "inline_step st (fsElementEventColorIcon styleAttr) = inline_onColorIcon st styleAttr"
| "inline_step st (fsCalendarEventTitle titleAttr) = inline_onTitle st titleAttr"

definition inline_initial :: InlineState where
  "inline_initial =
     \<lparr> InlineState.currentDayBox = None, InlineState.currentMenuItem = None,
       InlineState.dayBoxes = [] \<rparr>"

text \<open>The conversion of the saved day boxes at the end of \<^verbatim>\<open>parseCalendarFragment\<close>, a
  loop over the boxes in their order. \<^verbatim>\<open>format\<close> is called outside every \<^verbatim>\<open>try\<close> block:
  at the first box whose date is an \<^verbatim>\<open>Invalid Date\<close> the whole function throws.\<close>

fun inline_toDailyMenus :: "MealType \<Rightarrow> DayBox list \<Rightarrow> error + DailyMenu list" where
  "inline_toDailyMenus mt [] = Inr []"
| "inline_toDailyMenus mt (dayBox # boxes) =
     (case DayBox.date dayBox of
        None \<Rightarrow> inline_toDailyMenus mt boxes
      | Some d \<Rightarrow>
          (if DayBox.menuItems dayBox \<noteq> [] then
             (case format_DateObject d of
                Inl e \<Rightarrow> Inl e
              | Inr dateStr \<Rightarrow>
                  (case inline_toDailyMenus mt boxes of
                     Inl e \<Rightarrow> Inl e
                   | Inr menus \<Rightarrow>
                       Inr (newDailyMenu
                              \<lparr> DailyMenuData.date = dateStr,
                                DailyMenuData.mealType = mt,
                                DailyMenuData.menuItems =
                                  Some (map newMenuItem (DayBox.menuItems dayBox)),
                                DailyMenuData.specialNotes = None,
                                DailyMenuData.isSchoolDay = None \<rparr> # menus)))
           else inline_toDailyMenus mt boxes))"

text \<open>\<^verbatim>\<open>parseCalendarFragment\<close> of this version: the daily menus (\<open>Inr\<close>), or the error
  with which the function throws (\<open>Inl\<close>).\<close>

definition inline_parseCalendarFragment :: "Event list \<Rightarrow> MealType \<Rightarrow> error + DailyMenu list" where
  "inline_parseCalendarFragment events mt =
     (let st = foldl inline_step inline_initial events;
          st' = inline_completeDayBox st
      in inline_toDailyMenus mt (InlineState.dayBoxes st'))"


section \<open>The scraper with the class ScraperState (unnamed/part\_001)\<close>

record DayBoxData =
  date :: "IsoDate option"
  mealType :: MealType
  menuItems :: "MenuItemData list"

record ScraperState =
  currentDayBox :: "DayBoxData option"
  currentMenuItem :: "MenuItemData option"
  completedDays :: "DailyMenu list"
  mealType :: MealType

definition newScraperState :: "MealType \<Rightarrow> ScraperState" where
  "newScraperState mt =
     \<lparr> ScraperState.currentDayBox = None, ScraperState.currentMenuItem = None,
       ScraperState.completedDays = [], ScraperState.mealType = mt \<rparr>"

definition completePreviousDayBox :: "ScraperState \<Rightarrow> ScraperState" where
  "completePreviousDayBox this =
     (case ScraperState.currentDayBox this of
        None \<Rightarrow> this
      | Some box \<Rightarrow>
          (case DayBoxData.date box of
             None \<Rightarrow> this
           | Some dateStr \<Rightarrow>
               (if DayBoxData.menuItems box \<noteq> [] then
                  this \<lparr> ScraperState.completedDays :=
                           ScraperState.completedDays this @
                           [newDailyMenu
                              \<lparr> DailyMenuData.date = dateStr,
                                DailyMenuData.mealType = DayBoxData.mealType box,
                                DailyMenuData.menuItems =
                                  Some (map newMenuItem (DayBoxData.menuItems box)),
                                DailyMenuData.specialNotes = None,
                                DailyMenuData.isSchoolDay = None \<rparr>] \<rparr>
                else this)))"

definition startDayBox :: "ScraperState \<Rightarrow> ScraperState" where
  "startDayBox this =
     (let this1 = completePreviousDayBox this
      in this1 \<lparr> ScraperState.currentDayBox :=
                   Some \<lparr> DayBoxData.date = None,
                          DayBoxData.mealType = ScraperState.mealType this1,
                          DayBoxData.menuItems = [] \<rparr> \<rparr>)"

definition endDayBox :: "ScraperState \<Rightarrow> ScraperState" where
  "endDayBox this = (completePreviousDayBox this) \<lparr> ScraperState.currentDayBox := None \<rparr>"

text \<open>\<^verbatim>\<open>setDateInfo\<close> formats the date when a day box is open, and throws what \<^verbatim>\<open>format\<close>
  throws.\<close>

definition setDateInfo :: "ScraperState \<Rightarrow> DateObject \<Rightarrow> error + ScraperState" where
  "setDateInfo this d =
     (case ScraperState.currentDayBox this of
        None \<Rightarrow> Inr this
      | Some box \<Rightarrow>
          (case format_DateObject d of
             Inl e \<Rightarrow> Inl e
           | Inr dateStr \<Rightarrow>
               Inr (this \<lparr> ScraperState.currentDayBox :=
                            Some (box \<lparr> DayBoxData.date := Some dateStr \<rparr>) \<rparr>)))"

text \<open>\<^verbatim>\<open>description || name\<close>: the name stands in for a description that is missing or
  empty.\<close>

definition descriptionOrName :: "MenuItemData \<Rightarrow> string" where
  "descriptionOrName item =
     (case MenuItemData.description item of
        None \<Rightarrow> MenuItemData.name item
      | Some d \<Rightarrow> (if d \<noteq> [] then d else MenuItemData.name item))"

definition completePreviousMenuItem :: "ScraperState \<Rightarrow> ScraperState" where
  "completePreviousMenuItem this =
     (case ScraperState.currentMenuItem this of
        None \<Rightarrow> this
      | Some item \<Rightarrow>
          (case ScraperState.currentDayBox this of
             None \<Rightarrow> this
           | Some box \<Rightarrow>
               (if MenuItemData.name item \<noteq> [] then
                  this \<lparr> ScraperState.currentDayBox :=
                    Some (box \<lparr> DayBoxData.menuItems :=
                      DayBoxData.menuItems box @
                      [\<lparr> MenuItemData.name = MenuItemData.name item,
                         MenuItemData.description = Some (descriptionOrName item),
                         MenuItemData.category = MenuItemData.category item,
                         MenuItemData.isVegetarian = None,
                         MenuItemData.isVegan = None,
                         MenuItemData.allergens = MenuItemData.allergens item,
                         MenuItemData.nutritionalInfo = MenuItemData.nutritionalInfo item \<rparr>] \<rparr>) \<rparr>
                else this)))"

definition startMenuItem :: "ScraperState \<Rightarrow> ScraperState" where
  "startMenuItem this =
     (completePreviousMenuItem this) \<lparr> ScraperState.currentMenuItem := Some freshMenuItem \<rparr>"

definition endMenuItem :: "ScraperState \<Rightarrow> ScraperState" where
  "endMenuItem this = (completePreviousMenuItem this) \<lparr> ScraperState.currentMenuItem := None \<rparr>"

definition setMenuItemCategory :: "ScraperState \<Rightarrow> FoodCategory \<Rightarrow> ScraperState" where
  "setMenuItemCategory this cat =
     (case ScraperState.currentMenuItem this of
        None \<Rightarrow> this
      | Some item \<Rightarrow>
          this \<lparr> ScraperState.currentMenuItem :=
                   Some (item \<lparr> MenuItemData.category := Some cat \<rparr>) \<rparr>)"

definition isAdminAnnouncement :: "string \<Rightarrow> bool" where
  "isAdminAnnouncement title =
     (let lowerTitle = toLowerCase title
      in includes_str lowerTitle ''no school'' \<or>
         includes_str lowerTitle ''winter break'' \<or>
         includes_str lowerTitle ''last day of school'' \<or>
         includes_str lowerTitle ''memorial day'' \<or>
         includes_str lowerTitle ''teacher'' \<or>
         includes_str lowerTitle ''spring break'')"

definition setMenuItemTitle :: "ScraperState \<Rightarrow> string \<Rightarrow> ScraperState" where
  "setMenuItemTitle this title =
     (case ScraperState.currentMenuItem this of
        None \<Rightarrow> this
      | Some item \<Rightarrow>
          (if isAdminAnnouncement title then
             this \<lparr> ScraperState.currentMenuItem := None \<rparr>
           else
             (case parseMenuItemText title of
                (name', description') \<Rightarrow>
                  this \<lparr> ScraperState.currentMenuItem :=
                           Some (item \<lparr> MenuItemData.name := name',
                                       MenuItemData.description := Some description' \<rparr>) \<rparr>)))"

definition onDaybox :: "ScraperState \<Rightarrow> string option \<Rightarrow> ScraperState" where
  "onDaybox state classAttr =
     (let classNames = orEmpty classAttr
      in if includes_str classNames ''fsCalendarWeekendDayBox'' then state
         else startDayBox state)"

text \<open>The date handler: \<^verbatim>\<open>setDateInfo\<close> is called inside the \<^verbatim>\<open>try\<close> block, and the \<^verbatim>\<open>catch\<close>
  branch leaves the state as it was.\<close>

definition onDate ::
  "ScraperState \<Rightarrow> string option \<Rightarrow> string option \<Rightarrow> string option \<Rightarrow> ScraperState" where
  "onDate state dataDay dataMonth dataYear =
     (case dateOfAttributes dataDay dataMonth dataYear of
        None \<Rightarrow> state
      | Some d \<Rightarrow>
          (case setDateInfo state d of
             Inl e \<Rightarrow> state
           | Inr state' \<Rightarrow> state'))"

definition onColorIcon :: "ScraperState \<Rightarrow> string option \<Rightarrow> ScraperState" where
  "onColorIcon state styleAttr =
     (case colorCategory styleAttr of
        None \<Rightarrow> state
      | Some cat \<Rightarrow> setMenuItemCategory state cat)"

definition onTitle :: "ScraperState \<Rightarrow> string option \<Rightarrow> ScraperState" where
  "onTitle state titleAttr =
     (let title = trim (orEmpty titleAttr)
      in if title \<noteq> [] then setMenuItemTitle state (decodeTitle title) else state)"

fun step :: "ScraperState \<Rightarrow> Event \<Rightarrow> ScraperState" where
  "step state (fsCalendarDaybox classAttr) = onDaybox state classAttr"
| "step state (fsCalendarDate dataDay dataMonth dataYear) =
     onDate state dataDay dataMonth dataYear"
| "step state fsCalendarInfo = startMenuItem state"
| "step state (fsElementEventColorIcon styleAttr) = onColorIcon state styleAttr"
| "step state (fsCalendarEventTitle titleAttr) = onTitle state titleAttr"

definition parseCalendarFragment :: "Event list \<Rightarrow> MealType \<Rightarrow> DailyMenu list" where
  "parseCalendarFragment events mt =
     (let state = foldl step (newScraperState mt) events
      in ScraperState.completedDays (endDayBox (endMenuItem state)))"

section \<open>The week bucketer (the same in both versions)\<close>

text \<open>The variables of the loop of \<^verbatim>\<open>groupDailyMenusByWeek\<close>.\<close>

record WeekLoop =
  weeklyMenusAcc :: "WeeklyMenu list"
  currentWeekMenus :: "DailyMenu list"
  currentWeekStartDate :: "Date option"

text \<open>The bucket that the loop closes: nothing while no week is open.\<close>

definition flushWeek :: "WeekLoop \<Rightarrow> WeeklyMenu list" where
  "flushWeek l =
     (case currentWeekStartDate l of
        None \<Rightarrow> weeklyMenusAcc l
      | Some cur \<Rightarrow>
          (if currentWeekMenus l \<noteq> [] then
             weeklyMenusAcc l @
             [newWeeklyMenu
                \<lparr> WeeklyMenuData.startDate = format_yyyy_MM_dd cur,
                  WeeklyMenuData.endDate = format_yyyy_MM_dd (endOfWeek cur),
                  WeeklyMenuData.dailyMenus = Some (currentWeekMenus l) \<rparr>]
           else weeklyMenusAcc l))"

definition weekLoopBody :: "WeekLoop \<Rightarrow> DailyMenu \<Rightarrow> WeekLoop" where
  "weekLoopBody l dailyMenu =
     (let weekStart = startOfWeek (DailyMenu.date dailyMenu)
      in if (case currentWeekStartDate l of
               None \<Rightarrow> True
             | Some cur \<Rightarrow> \<not> isSameWeek weekStart cur)
         then \<lparr> weeklyMenusAcc = flushWeek l,
                currentWeekMenus = [dailyMenu],
                currentWeekStartDate = Some weekStart \<rparr>
         else l \<lparr> currentWeekMenus := currentWeekMenus l @ [dailyMenu] \<rparr>)"

text \<open>\<^verbatim>\<open>Array.prototype.sort\<close> is stable, and so is \<^const>\<open>sort_key\<close>.\<close>

definition groupDailyMenusByWeek :: "DailyMenu list \<Rightarrow> WeeklyMenu list" where
  "groupDailyMenusByWeek dms =
     (if dms = [] then []
      else
        (let sortedMenus = sort_key DailyMenu.date dms;
             l = foldl weekLoopBody
                   \<lparr> weeklyMenusAcc = [], currentWeekMenus = [], currentWeekStartDate = None \<rparr>
                   sortedMenus
         in flushWeek l))"


section \<open>Definitions of the specification and of the tests\<close>

text \<open>The resolution rule in the words of the claim: a date from Monday to Friday resolves
  to the week whose range from \<^verbatim>\<open>startDate\<close> to \<^verbatim>\<open>endDate\<close> contains it; a Sunday or a
  Saturday resolves to the week whose start date is the next Monday on or after the date
  plus one day (Sunday) or plus two days (Saturday).\<close>

definition nextMondayOnOrAfter :: "Date \<Rightarrow> Date" where
  "nextMondayOnOrAfter d = d + (8 - getDay d) mod 7"

definition followingMonday :: "Date \<Rightarrow> Date" where
  "followingMonday d = nextMondayOnOrAfter (if getDay d = 0 then d + 1 else d + 2)"

definition claimedWeek :: "Date \<Rightarrow> WeeklyMenu \<Rightarrow> bool" where
  "claimedWeek d w =
     (if getDay d \<in> {1, 2, 3, 4, 5}
      then WeeklyMenu.startDate w \<le> d \<and> d \<le> WeeklyMenu.endDate w
      else WeeklyMenu.startDate w = followingMonday d)"

text \<open>The rule of the amended claim: a weekend date is resolved by every week that starts
  on or after the Monday that follows it, not only by the week that starts on that
  Monday.\<close>

definition weekResolvesDate :: "Date \<Rightarrow> WeeklyMenu \<Rightarrow> bool" where
  "weekResolvesDate d w =
     (if getDay d \<in> {1, 2, 3, 4, 5}
      then WeeklyMenu.startDate w \<le> d \<and> d \<le> WeeklyMenu.endDate w
      else (if getDay d = 0 then d + 1 else d + 2) \<le> WeeklyMenu.startDate w)"

text \<open>The weeks of \<^verbatim>\<open>tests/models.test.ts\<close>, 2024-01-01 to 2024-01-07, 2024-01-08 to
  2024-01-14 and 2024-01-15 to 2024-01-21, and a monthly menu that holds the first two.\<close>

definition weeklyMenu1 :: WeeklyMenu where
  "weeklyMenu1 =
     newWeeklyMenu \<lparr> WeeklyMenuData.startDate = format_yyyy_MM_dd (newDate 2024 0 1),
                     WeeklyMenuData.endDate = format_yyyy_MM_dd (newDate 2024 0 7),
                     WeeklyMenuData.dailyMenus = Some [] \<rparr>"

definition weeklyMenu2 :: WeeklyMenu where
  "weeklyMenu2 =
     newWeeklyMenu \<lparr> WeeklyMenuData.startDate = format_yyyy_MM_dd (newDate 2024 0 8),
                     WeeklyMenuData.endDate = format_yyyy_MM_dd (newDate 2024 0 14),
                     WeeklyMenuData.dailyMenus = Some [] \<rparr>"

definition weeklyMenu3 :: WeeklyMenu where
  "weeklyMenu3 =
     newWeeklyMenu \<lparr> WeeklyMenuData.startDate = format_yyyy_MM_dd (newDate 2024 0 15),
                     WeeklyMenuData.endDate = format_yyyy_MM_dd (newDate 2024 0 21),
                     WeeklyMenuData.dailyMenus = Some [] \<rparr>"

definition monthlyMenu :: MonthlyMenu where
  "monthlyMenu =
     \<lparr> MonthlyMenu.year = 2024, MonthlyMenu.month = 1,
       MonthlyMenu.weeklyMenus = [weeklyMenu1, weeklyMenu2] \<rparr>"

text \<open>A menu without the week of 8 January 2024, as the bucketer builds it when no day of
  that week has a menu, and a menu whose weeks are not in the order of their dates.\<close>

definition gapMenu :: MonthlyMenu where
  "gapMenu =
     \<lparr> MonthlyMenu.year = 2024, MonthlyMenu.month = 1,
       MonthlyMenu.weeklyMenus = [weeklyMenu1, weeklyMenu3] \<rparr>"

definition unorderedMenu :: MonthlyMenu where
  "unorderedMenu =
     \<lparr> MonthlyMenu.year = 2024, MonthlyMenu.month = 1,
       MonthlyMenu.weeklyMenus = [weeklyMenu3, weeklyMenu2] \<rparr>"

definition veganTamales :: MenuItemData where
  "veganTamales =
     \<lparr> MenuItemData.name = ''Vegan Corn & Chile Tamales'',
       MenuItemData.description = None,
       MenuItemData.category = Some VEGETARIAN_ENTREE,
       MenuItemData.isVegetarian = None,
       MenuItemData.isVegan = None,
       MenuItemData.allergens = None,
       MenuItemData.nutritionalInfo = None \<rparr>"

text \<open>An occurrence of the separator in the words of the specification: at the position
  \<open>n\<close> of the text stands the word \<^verbatim>\<open>with\<close> between two non-empty runs of white space.\<close>

definition withSeparatorOccursAt :: "string \<Rightarrow> nat \<Rightarrow> bool" where
  "withSeparatorOccursAt s n =
     (n \<le> length s \<and>
      (\<exists>w1 w2 post. drop n s = w1 @ ''with'' @ w2 @ post \<and>
         w1 \<noteq> [] \<and> (\<forall>c \<in> set w1. isWhiteSpace c) \<and>
         w2 \<noteq> [] \<and> (\<forall>c \<in> set w2. isWhiteSpace c)))"

text \<open>Streams of events for the evaluation of the two versions.\<close>

definition hasEventsClass :: string where
  "hasEventsClass = ''fsCalendarDaybox fsStateHasEvents''"

definition weekendClass :: string where
  "weekendClass = ''fsCalendarDaybox fsCalendarWeekendDayBox fsStateHasEvents''"

definition quarterEndsEvents :: "Event list" where
  "quarterEndsEvents =
     [fsCalendarDaybox (Some hasEventsClass),
      fsCalendarDate (Some ''14'') (Some ''2'') (Some ''2025''),
      fsCalendarInfo,
      fsCalendarEventTitle (Some ''Quarter Ends'')]"

definition weekendEvents :: "Event list" where
  "weekendEvents =
     [fsCalendarDaybox (Some hasEventsClass),
      fsCalendarDate (Some ''7'') (Some ''2'') (Some ''2025''),
      fsCalendarInfo,
      fsCalendarEventTitle (Some ''Pizza''),
      fsCalendarDaybox (Some weekendClass),
      fsCalendarDate (Some ''8'') (Some ''2'') (Some ''2025''),
      fsCalendarInfo,
      fsCalendarEventTitle (Some ''Brunch'')]"

definition twoDayEvents :: "Event list" where
  "twoDayEvents =
     [fsCalendarDaybox (Some hasEventsClass),
      fsCalendarDate (Some ''6'') (Some ''2'') (Some ''2025''),
      fsCalendarInfo,
      fsCalendarEventTitle (Some ''Pizza''),
      fsCalendarDaybox (Some hasEventsClass),
      fsCalendarDate (Some ''7'') (Some ''2'') (Some ''2025''),
      fsCalendarInfo,
      fsCalendarEventTitle (Some ''Tacos'')]"

text \<open>A day box whose date element has the year 300000, beyond the last valid date
  (275760-09-13), with one item.\<close>

definition farYearEvents :: "Event list" where
  "farYearEvents =
     [fsCalendarDaybox (Some hasEventsClass),
      fsCalendarDate (Some ''7'') (Some ''2'') (Some ''300000''),
      fsCalendarInfo,
      fsCalendarEventTitle (Some ''Pizza'')]"

text \<open>A day box whose date element has the day 0, with the item "Soup", followed by an
  ordinary day box with the item "Pizza".\<close>

definition undatedDayEvents :: "Event list" where
  "undatedDayEvents =
     [fsCalendarDaybox (Some hasEventsClass),
      fsCalendarDate (Some ''0'') (Some ''2'') (Some ''2025''),
      fsCalendarInfo,
      fsCalendarEventTitle (Some ''Soup''),
      fsCalendarDaybox (Some hasEventsClass),
      fsCalendarDate (Some ''7'') (Some ''2'') (Some ''2025''),
      fsCalendarInfo,
      fsCalendarEventTitle (Some ''Pizza'')]"

text \<open>What a test reads of a parsed list: the date and the names of the items of each day.\<close>

definition summary :: "DailyMenu list \<Rightarrow> (Date \<times> string list) list" where
  "summary ms = map (\<lambda>m. (DailyMenu.date m, map MenuItem.name (DailyMenu.menuItems m))) ms"

text \<open>The elements that open a day box.\<close>

fun isDaybox :: "Event \<Rightarrow> bool" where
  "isDaybox (fsCalendarDaybox classAttr) = True"
| "isDaybox e = False"

text \<open>The title that the title handler hands on: the attribute trimmed and decoded.\<close>

definition decodedTitle :: "string option \<Rightarrow> string" where
  "decodedTitle titleAttr = decodeTitle (trim (orEmpty titleAttr))"

text \<open>The test of the weekend marker on the class attribute of a day box.\<close>

definition isWeekendClass :: "string option \<Rightarrow> bool" where
  "isWeekendClass classAttr = includes_str (orEmpty classAttr) ''fsCalendarWeekendDayBox''"

text \<open>A date is resolved by a stream when one of its date elements passes the test of the
  date handler and gives that date, a valid one.\<close>

definition resolvedBy :: "Event list \<Rightarrow> Date \<Rightarrow> bool" where
  "resolvedBy events d =
     (\<exists>dataDay dataMonth dataYear.
        fsCalendarDate dataDay dataMonth dataYear \<in> set events \<and>
        dateOfAttributes dataDay dataMonth dataYear = Some (ValidDate d))"

text \<open>The daily menus of the output are read back from the text \<^verbatim>\<open>yyyy-MM-dd\<close> of their
  dates, which names the day for the years 0001 to 9999. An element is within these years
  when it is no date element, or resolves no valid date, or resolves one of these
  years.\<close>

definition hasFourDigitYear :: "Event \<Rightarrow> bool" where
  "hasFourDigitYear e =
     (case e of
        fsCalendarDate dataDay dataMonth dataYear \<Rightarrow>
          (case dateOfAttributes dataDay dataMonth dataYear of
             Some (ValidDate d) \<Rightarrow> daysBeforeYear 1 \<le> d \<and> d < daysBeforeYear 10000
           | _ \<Rightarrow> True)
      | _ \<Rightarrow> True)"

text \<open>Invariants of the two state machines: every valid date that the state holds, in a
  saved day or in the open day box, satisfies \<open>R\<close>.\<close>

definition inline_datesFrom :: "(Date \<Rightarrow> bool) \<Rightarrow> InlineState \<Rightarrow> bool" where
  "inline_datesFrom R st =
     ((\<forall>b \<in> set (InlineState.dayBoxes st). \<forall>d. DayBox.date b = Some (ValidDate d) \<longrightarrow> R d) \<and>
      (\<forall>b d. InlineState.currentDayBox st = Some b \<longrightarrow>
         DayBox.date b = Some (ValidDate d) \<longrightarrow> R d))"

definition datesFrom :: "(Date \<Rightarrow> bool) \<Rightarrow> ScraperState \<Rightarrow> bool" where
  "datesFrom R st =
     ((\<forall>m \<in> set (ScraperState.completedDays st). R (DailyMenu.date m)) \<and>
      (\<forall>b s. ScraperState.currentDayBox st = Some b \<longrightarrow> DayBoxData.date b = Some s \<longrightarrow>
         R (parseISO_noon s)))"

text \<open>A state in which no date is pending: no day box is open, or the open one has no date.\<close>

definition inline_dateless :: "InlineState \<Rightarrow> bool" where
  "inline_dateless st =
     (case InlineState.currentDayBox st of None \<Rightarrow> True | Some b \<Rightarrow> DayBox.date b = None)"

text \<open>The date elements that pass the test of the date handler, after which the version
  with inline state stores a date object.\<close>

definition isResolvingDate :: "Event \<Rightarrow> bool" where
  "isResolvingDate e =
     (case e of
        fsCalendarDate dataDay dataMonth dataYear \<Rightarrow>
          dateOfAttributes dataDay dataMonth dataYear \<noteq> None
      | _ \<Rightarrow> False)"

text \<open>The Monday of the week of a daily menu.\<close>

definition weekKey :: "DailyMenu \<Rightarrow> Date" where
  "weekKey m = startOfWeek (DailyMenu.date m)"

text \<open>The bucket of the week that starts on a Monday: it ends six days later.\<close>

definition weekOf :: "Date \<Rightarrow> DailyMenu list \<Rightarrow> WeeklyMenu" where
  "weekOf monday ms =
     \<lparr> WeeklyMenu.startDate = monday, WeeklyMenu.endDate = monday + 6,
       WeeklyMenu.dailyMenus = ms \<rparr>"

text \<open>What the loop computes from an open week \<open>k\<close> with the menus \<open>ms\<close> and the rest of
  the sorted list.\<close>

fun runs :: "Date \<Rightarrow> DailyMenu list \<Rightarrow> DailyMenu list \<Rightarrow> WeeklyMenu list" where
  "runs k ms [] = [weekOf k ms]"
| "runs k ms (x # xs) =
     (if weekKey x = k then runs k (ms @ [x]) xs else weekOf k ms # runs (weekKey x) [x] xs)"

text \<open>The buckets in the words of the specification: one for each distinct week that the
  input has, in ascending order of the Mondays, each with the menus of its week in the
  order of their dates.\<close>

definition weekBuckets :: "DailyMenu list \<Rightarrow> WeeklyMenu list" where
  "weekBuckets dms =
     map (\<lambda>k. weekOf k (sort_key DailyMenu.date (filter (\<lambda>m. weekKey m = k) dms)))
       (sorted_list_of_set (weekKey ` set dms))"

text \<open>Daily menus for the evaluation of the bucketer: a lunch without items on a date.\<close>

definition lunchOn :: "Date \<Rightarrow> DailyMenu" where
  "lunchOn d =
     \<lparr> DailyMenu.date = d, DailyMenu.mealType = LUNCH, DailyMenu.menuItems = [],
       DailyMenu.specialNotes = [], DailyMenu.isSchoolDay = True \<rparr>"

definition januaryMenus :: "DailyMenu list" where
  "januaryMenus = [lunchOn (newDate 2024 0 10), lunchOn (newDate 2024 0 3), lunchOn (newDate 2024 0 8)]"

definition januaryMenusShuffled :: "DailyMenu list" where
  "januaryMenusShuffled = [lunchOn (newDate 2024 0 8), lunchOn (newDate 2024 0 10), lunchOn (newDate 2024 0 3)]"

section \<open>Serialization\<close>

lemma MenuItem_round_trip: "MenuItem_fromJSON (MenuItem_toJSON i) = i"
  by (simp add: MenuItem_fromJSON_def MenuItem_toJSON_def newMenuItem_def)


lemma parseISO_format: "parseISO_noon (format_yyyy_MM_dd d) = d"
  by (simp add: format_yyyy_MM_dd_def)






lemma vegan_tamales_name:
  "list_ex (\<lambda>t. includes_str (toLowerCase ''Vegan Corn & Chile Tamales'') t) veganTerms"
  by code_simp

lemma vegan_tamales_inferred:
  assumes "MenuItemData.name data = ''Vegan Corn & Chile Tamales''"
    and "MenuItemData.isVegan data = None"
    and "MenuItemData.isVegetarian data = None"
  shows "MenuItem.isVegan (MenuItem_fromJSON data) \<and> MenuItem.isVegetarian (MenuItem_fromJSON data)"
  using assms vegan_tamales_name by (simp add: MenuItem_fromJSON_def newMenuItem_def)



section \<open>The invariant of MenuItem\<close>

text \<open>
  Claim C7 as stated fails: the constructor copies explicit flags as they are given, so
  an input with \<^verbatim>\<open>isVegetarian: false\<close> and \<^verbatim>\<open>isVegan: true\<close> gives an item that is vegan
  and not vegetarian.
\<close>

theorem vegan_not_vegetarian_counterexample:
  "MenuItem.isVegan
     (newMenuItem \<lparr> MenuItemData.name = ''Tofu'', MenuItemData.description = None,
                    MenuItemData.category = None, MenuItemData.isVegetarian = Some False,
                    MenuItemData.isVegan = Some True, MenuItemData.allergens = None,
                    MenuItemData.nutritionalInfo = None \<rparr>) \<and>
   \<not> MenuItem.isVegetarian
     (newMenuItem \<lparr> MenuItemData.name = ''Tofu'', MenuItemData.description = None,
                    MenuItemData.category = None, MenuItemData.isVegetarian = Some False,
                    MenuItemData.isVegan = Some True, MenuItemData.allergens = None,
                    MenuItemData.nutritionalInfo = None \<rparr>)"
  by (simp add: newMenuItem_def)

text \<open>
  Claim C7, amended. When the input does not say \<^verbatim>\<open>isVegetarian: false\<close> (the flag is
  omitted or true), the constructed item is vegetarian whenever it is vegan, the vegan
  flag being explicit or inferred. Deserialization goes through the same constructor and
  keeps the invariant of the item that was serialized.
\<close>

theorem vegan_implies_vegetarian:
  "(MenuItemData.isVegetarian data \<noteq> Some False \<longrightarrow>
      (MenuItem.isVegan (newMenuItem data) \<longrightarrow> MenuItem.isVegetarian (newMenuItem data)) \<and>
      (MenuItem.isVegan (MenuItem_fromJSON data) \<longrightarrow> MenuItem.isVegetarian (MenuItem_fromJSON data)))
   \<and>
   ((MenuItem.isVegan i \<longrightarrow> MenuItem.isVegetarian i) \<longrightarrow>
      (MenuItem.isVegan (MenuItem_fromJSON (MenuItem_toJSON i)) \<longrightarrow>
       MenuItem.isVegetarian (MenuItem_fromJSON (MenuItem_toJSON i))))"
  by (auto simp add: MenuItem_round_trip)
     (auto simp add: MenuItem_fromJSON_def newMenuItem_def Let_def split: option.splits)

theorem vegan_implies_vegetarian_witness:
  "MenuItemData.isVegetarian veganTamales \<noteq> Some False \<and>
   MenuItem.isVegan (newMenuItem veganTamales) \<and>
   MenuItem.isVegetarian (newMenuItem veganTamales) \<and>
   MenuItem.isVegetarian (MenuItem_fromJSON (MenuItem_toJSON (newMenuItem veganTamales)))"
proof -
  have v: "MenuItem.isVegan (newMenuItem veganTamales)"
    using vegan_tamales_inferred [of veganTamales]
    by (simp add: veganTamales_def MenuItem_fromJSON_def)
  have n: "MenuItemData.isVegetarian veganTamales \<noteq> Some False"
    by (simp add: veganTamales_def)
  show ?thesis
    using v n vegan_implies_vegetarian [of veganTamales "newMenuItem veganTamales"]
    by (simp add: MenuItem_round_trip)
qed


section \<open>Resolution of a date to its week\<close>

lemma getDay_range: "0 \<le> getDay d \<and> getDay d \<le> 6"
  by (simp add: getDay_def)

lemma weekResolvesDate_cases:
  "getDay d = 0 \<Longrightarrow> weekResolvesDate d = (\<lambda>w. d + 1 \<le> WeeklyMenu.startDate w)"
  "getDay d = 6 \<Longrightarrow> weekResolvesDate d = (\<lambda>w. d + 2 \<le> WeeklyMenu.startDate w)"
  "getDay d \<in> {1, 2, 3, 4, 5} \<Longrightarrow>
     weekResolvesDate d = (\<lambda>w. WeeklyMenu.startDate w \<le> d \<and> d \<le> WeeklyMenu.endDate w)"
proof -
  show "getDay d = 0 \<Longrightarrow> weekResolvesDate d = (\<lambda>w. d + 1 \<le> WeeklyMenu.startDate w)"
    by (simp add: fun_eq_iff weekResolvesDate_def)
  show "getDay d = 6 \<Longrightarrow> weekResolvesDate d = (\<lambda>w. d + 2 \<le> WeeklyMenu.startDate w)"
    by (simp add: fun_eq_iff weekResolvesDate_def)
  show "getDay d \<in> {1, 2, 3, 4, 5} \<Longrightarrow>
     weekResolvesDate d = (\<lambda>w. WeeklyMenu.startDate w \<le> d \<and> d \<le> WeeklyMenu.endDate w)"
    by (simp add: fun_eq_iff weekResolvesDate_def del: insert_iff)
qed

lemma getWeeklyMenuForDate_find:
  "getWeeklyMenuForDate this d = find (weekResolvesDate d) (MonthlyMenu.weeklyMenus this)"
proof -
  have r: "0 \<le> getDay d \<and> getDay d \<le> 6" by (rule getDay_range)
  consider "getDay d = 0" | "getDay d = 6" | "getDay d \<in> {1, 2, 3, 4, 5}"
    using r by (simp) arith
  then show ?thesis
  proof cases
    case 1
    then show ?thesis
      by (simp add: weekResolvesDate_cases getWeeklyMenuForDate_def format_yyyy_MM_dd_def
          addDays_def Let_def)
  next
    case 2
    then show ?thesis
      by (simp add: weekResolvesDate_cases getWeeklyMenuForDate_def format_yyyy_MM_dd_def
          addDays_def Let_def)
  next
    case 3
    then have "getDay d \<noteq> 0" "getDay d \<noteq> 6" by auto
    with 3 show ?thesis
      by (simp add: weekResolvesDate_cases getWeeklyMenuForDate_def format_yyyy_MM_dd_def
          Let_def del: insert_iff)
  qed
qed

lemma next_monday: "(getDay d = 0 \<longrightarrow> getDay (d + 1) = 1) \<and> (getDay d = 6 \<longrightarrow> getDay (d + 2) = 1)"
  unfolding getDay_def by presburger

lemma jan_2024_days:
  "newDate 2024 0 1 = 19723" "newDate 2024 0 3 = 19725" "newDate 2024 0 6 = 19728"
  "newDate 2024 0 7 = 19729" "newDate 2024 0 8 = 19730" "newDate 2024 0 14 = 19736"
  "newDate 2024 0 20 = 19742"
  by code_simp+

lemma jan_2024_resolution:
  assumes "MonthlyMenu.weeklyMenus this = [w1, w2]"
    and "WeeklyMenu.startDate w1 = newDate 2024 0 1" and "WeeklyMenu.endDate w1 = newDate 2024 0 7"
    and "WeeklyMenu.startDate w2 = newDate 2024 0 8" and "WeeklyMenu.endDate w2 = newDate 2024 0 14"
  shows "getWeeklyMenuForDate this (newDate 2024 0 3) = Some w1"
    and "getWeeklyMenuForDate this (newDate 2024 0 6) = Some w2"
    and "getWeeklyMenuForDate this (newDate 2024 0 7) = Some w2"
    and "getWeeklyMenuForDate this (newDate 2024 0 20) = None"
  using assms
  by (simp_all add: getWeeklyMenuForDate_find weekResolvesDate_def jan_2024_days getDay_def)

lemma followingMonday_weekend:
  assumes "getDay d \<notin> {1, 2, 3, 4, 5}"
  shows "followingMonday d = (if getDay d = 0 then d + 1 else d + 2)"
    and "getDay (followingMonday d) = 1"
proof -
  have r: "0 \<le> getDay d \<and> getDay d \<le> 6" by (rule getDay_range)
  with assms have c: "getDay d = 0 \<or> getDay d = 6" by simp arith
  have m: "getDay (if getDay d = 0 then d + 1 else d + 2) = 1"
    using c next_monday [of d] by auto
  then show "followingMonday d = (if getDay d = 0 then d + 1 else d + 2)"
    unfolding followingMonday_def nextMondayOnOrAfter_def by simp
  with m show "getDay (followingMonday d) = 1" by simp
qed

lemma claimedWeek_resolves: "claimedWeek d w \<Longrightarrow> weekResolvesDate d w"
  by (cases "getDay d \<in> {1, 2, 3, 4, 5}")
     (simp_all add: claimedWeek_def weekResolvesDate_def followingMonday_weekend(1) del: insert_iff)

lemma find_first_start:
  assumes "sorted (map WeeklyMenu.startDate ws)"
    and "\<exists>w \<in> set ws. WeeklyMenu.startDate w = k"
  shows "find (\<lambda>w. k \<le> WeeklyMenu.startDate w) ws = find (\<lambda>w. WeeklyMenu.startDate w = k) ws"
  using assms
proof (induction ws)
  case Nil
  then show ?case by simp
next
  case (Cons x xs)
  show ?case
  proof (cases "WeeklyMenu.startDate x = k")
    case True
    then show ?thesis by simp
  next
    case False
    with Cons.prems(2) obtain w where w: "w \<in> set xs" "WeeklyMenu.startDate w = k" by auto
    with Cons.prems(1) have "WeeklyMenu.startDate x \<le> k" by auto
    with False have lt: "\<not> k \<le> WeeklyMenu.startDate x" by simp
    have "find (\<lambda>w. k \<le> WeeklyMenu.startDate w) xs = find (\<lambda>w. WeeklyMenu.startDate w = k) xs"
      using Cons.prems(1) w by (intro Cons.IH) auto
    with False lt show ?thesis by simp
  qed
qed

lemma getWeeklyMenuForDate_claimed:
  assumes "sorted (map WeeklyMenu.startDate (MonthlyMenu.weeklyMenus this))"
    and "\<exists>w \<in> set (MonthlyMenu.weeklyMenus this). claimedWeek d w"
  shows "getWeeklyMenuForDate this d = find (claimedWeek d) (MonthlyMenu.weeklyMenus this)"
proof (cases "getDay d \<in> {1, 2, 3, 4, 5}")
  case True
  then have "weekResolvesDate d = claimedWeek d"
    by (simp add: fun_eq_iff weekResolvesDate_def claimedWeek_def del: insert_iff)
  then show ?thesis by (simp add: getWeeklyMenuForDate_find)
next
  case False
  have f: "followingMonday d = (if getDay d = 0 then d + 1 else d + 2)"
    using False by (rule followingMonday_weekend(1))
  have a: "weekResolvesDate d = (\<lambda>w. followingMonday d \<le> WeeklyMenu.startDate w)"
    using False by (simp add: fun_eq_iff weekResolvesDate_def f del: insert_iff)
  have b: "claimedWeek d = (\<lambda>w. WeeklyMenu.startDate w = followingMonday d)"
    using False by (simp add: fun_eq_iff claimedWeek_def del: insert_iff)
  have "\<exists>w \<in> set (MonthlyMenu.weeklyMenus this). WeeklyMenu.startDate w = followingMonday d"
    using assms(2) by (simp add: b)
  with assms(1) show ?thesis
    by (simp only: getWeeklyMenuForDate_find a b find_first_start)
qed

text \<open>
  Claim C1 as stated fails. For a Saturday or a Sunday the code takes the first week of
  the list that starts on or after the following Monday. In a menu with the weeks of
  1 January and of 15 January 2024 and without the week of 8 January, no week starts on
  the Monday that follows Saturday 6 January, so the rule of the claim resolves the date
  to nothing; the code returns the week of 15 January. In a menu that lists the week of
  15 January before the week of 8 January the code returns the week of 15 January too,
  and the rule of the claim names the week of 8 January.
\<close>

theorem getWeeklyMenuForDate_counterexample:
  "getDay (newDate 2024 0 6) = 6 \<and>
   followingMonday (newDate 2024 0 6) = newDate 2024 0 8 \<and>
   filter (claimedWeek (newDate 2024 0 6)) (MonthlyMenu.weeklyMenus gapMenu) = [] \<and>
   getWeeklyMenuForDate gapMenu (newDate 2024 0 6) = Some weeklyMenu3 \<and>
   filter (claimedWeek (newDate 2024 0 6)) (MonthlyMenu.weeklyMenus unorderedMenu) = [weeklyMenu2] \<and>
   getWeeklyMenuForDate unorderedMenu (newDate 2024 0 6) = Some weeklyMenu3 \<and>
   WeeklyMenu.startDate weeklyMenu2 = newDate 2024 0 8 \<and>
   WeeklyMenu.startDate weeklyMenu3 = newDate 2024 0 15 \<and>
   weeklyMenu3 \<noteq> weeklyMenu2"
  by code_simp

text \<open>
  Claim C1, amended. \<^verbatim>\<open>getWeeklyMenuForDate\<close> returns the first week, in the order of the
  list of the monthly menu, that the resolution rule accepts: for a date from Monday to
  Friday a week whose range from \<^verbatim>\<open>startDate\<close> to \<^verbatim>\<open>endDate\<close> contains the date, for a
  Sunday or a Saturday a week that starts on or after the date plus one or two days,
  which is the following Monday. The result is absent exactly when no week of the menu
  is accepted; there is no error. The week that the claim names is always accepted, on a
  weekday the two rules are the same, and when the weeks are listed in ascending order
  of their start dates and the week that the claim names is present, it is the result.
  With the weeks of 1 to 7 and of 8 to 14 January 2024, 3 January resolves to the first
  week, 6 and 7 January to the second, and 20 January to nothing.
\<close>

theorem getWeeklyMenuForDate_resolves:
  "getWeeklyMenuForDate this d = find (weekResolvesDate d) (MonthlyMenu.weeklyMenus this) \<and>
   (\<forall>w. getWeeklyMenuForDate this d = Some w \<longrightarrow>
        w \<in> set (MonthlyMenu.weeklyMenus this) \<and> weekResolvesDate d w) \<and>
   (getWeeklyMenuForDate this d = None \<longleftrightarrow>
        (\<forall>w \<in> set (MonthlyMenu.weeklyMenus this). \<not> weekResolvesDate d w)) \<and>
   (getDay d \<in> {1, 2, 3, 4, 5} \<longrightarrow>
      (\<forall>w. weekResolvesDate d w \<longleftrightarrow> WeeklyMenu.startDate w \<le> d \<and> d \<le> WeeklyMenu.endDate w)) \<and>
   (getDay d = 0 \<longrightarrow> getDay (d + 1) = 1 \<and>
      (\<forall>w. weekResolvesDate d w \<longleftrightarrow> d + 1 \<le> WeeklyMenu.startDate w)) \<and>
   (getDay d = 6 \<longrightarrow> getDay (d + 2) = 1 \<and>
      (\<forall>w. weekResolvesDate d w \<longleftrightarrow> d + 2 \<le> WeeklyMenu.startDate w)) \<and>
   (\<forall>w. claimedWeek d w \<longrightarrow> weekResolvesDate d w) \<and>
   (getDay d \<in> {1, 2, 3, 4, 5} \<longrightarrow> (\<forall>w. weekResolvesDate d w \<longrightarrow> claimedWeek d w)) \<and>
   (sorted (map WeeklyMenu.startDate (MonthlyMenu.weeklyMenus this)) \<and>
    (\<exists>w \<in> set (MonthlyMenu.weeklyMenus this). claimedWeek d w) \<longrightarrow>
      getWeeklyMenuForDate this d = find (claimedWeek d) (MonthlyMenu.weeklyMenus this)) \<and>
   (MonthlyMenu.weeklyMenus this = [w1, w2] \<and>
    WeeklyMenu.startDate w1 = newDate 2024 0 1 \<and> WeeklyMenu.endDate w1 = newDate 2024 0 7 \<and>
    WeeklyMenu.startDate w2 = newDate 2024 0 8 \<and> WeeklyMenu.endDate w2 = newDate 2024 0 14 \<longrightarrow>
      getWeeklyMenuForDate this (newDate 2024 0 3) = Some w1 \<and>
      getWeeklyMenuForDate this (newDate 2024 0 6) = Some w2 \<and>
      getWeeklyMenuForDate this (newDate 2024 0 7) = Some w2 \<and>
      getWeeklyMenuForDate this (newDate 2024 0 20) = None)"
proof -
  have f: "getWeeklyMenuForDate this d = find (weekResolvesDate d) (MonthlyMenu.weeklyMenus this)"
    by (rule getWeeklyMenuForDate_find)
  have s: "\<forall>w. getWeeklyMenuForDate this d = Some w \<longrightarrow>
        w \<in> set (MonthlyMenu.weeklyMenus this) \<and> weekResolvesDate d w"
    unfolding f by (auto simp add: find_Some_iff)
  have n: "getWeeklyMenuForDate this d = None \<longleftrightarrow>
        (\<forall>w \<in> set (MonthlyMenu.weeklyMenus this). \<not> weekResolvesDate d w)"
    unfolding f by (auto simp add: find_None_iff)
  have wd: "getDay d \<in> {1, 2, 3, 4, 5} \<longrightarrow>
      (\<forall>w. weekResolvesDate d w \<longleftrightarrow> WeeklyMenu.startDate w \<le> d \<and> d \<le> WeeklyMenu.endDate w)"
    by (simp add: weekResolvesDate_def del: insert_iff)
  have su: "getDay d = 0 \<longrightarrow> getDay (d + 1) = 1 \<and>
      (\<forall>w. weekResolvesDate d w \<longleftrightarrow> d + 1 \<le> WeeklyMenu.startDate w)"
    using next_monday [of d] by (simp add: weekResolvesDate_def)
  have sa: "getDay d = 6 \<longrightarrow> getDay (d + 2) = 1 \<and>
      (\<forall>w. weekResolvesDate d w \<longleftrightarrow> d + 2 \<le> WeeklyMenu.startDate w)"
    using next_monday [of d] by (simp add: weekResolvesDate_def)
  have cw: "\<forall>w. claimedWeek d w \<longrightarrow> weekResolvesDate d w"
    by (simp add: claimedWeek_resolves)
  have wc: "getDay d \<in> {1, 2, 3, 4, 5} \<longrightarrow> (\<forall>w. weekResolvesDate d w \<longrightarrow> claimedWeek d w)"
    by (simp add: weekResolvesDate_def claimedWeek_def del: insert_iff)
  have so: "sorted (map WeeklyMenu.startDate (MonthlyMenu.weeklyMenus this)) \<and>
    (\<exists>w \<in> set (MonthlyMenu.weeklyMenus this). claimedWeek d w) \<longrightarrow>
      getWeeklyMenuForDate this d = find (claimedWeek d) (MonthlyMenu.weeklyMenus this)"
    using getWeeklyMenuForDate_claimed [of this d] by blast
  have ja: "MonthlyMenu.weeklyMenus this = [w1, w2] \<and>
    WeeklyMenu.startDate w1 = newDate 2024 0 1 \<and> WeeklyMenu.endDate w1 = newDate 2024 0 7 \<and>
    WeeklyMenu.startDate w2 = newDate 2024 0 8 \<and> WeeklyMenu.endDate w2 = newDate 2024 0 14 \<longrightarrow>
      getWeeklyMenuForDate this (newDate 2024 0 3) = Some w1 \<and>
      getWeeklyMenuForDate this (newDate 2024 0 6) = Some w2 \<and>
      getWeeklyMenuForDate this (newDate 2024 0 7) = Some w2 \<and>
      getWeeklyMenuForDate this (newDate 2024 0 20) = None"
    using jan_2024_resolution [of this w1 w2] by blast
  show ?thesis
    using f s n wd su sa cw wc so ja by (intro conjI)
qed

theorem getWeeklyMenuForDate_resolves_witness:
  "getDay (newDate 2024 0 3) \<in> {1, 2, 3, 4, 5} \<and>
   getDay (newDate 2024 0 6) = 6 \<and> getDay (newDate 2024 0 7) = 0 \<and>
   getWeeklyMenuForDate monthlyMenu (newDate 2024 0 3) = Some weeklyMenu1 \<and>
   getWeeklyMenuForDate monthlyMenu (newDate 2024 0 6) = Some weeklyMenu2 \<and>
   getWeeklyMenuForDate monthlyMenu (newDate 2024 0 7) = Some weeklyMenu2 \<and>
   getWeeklyMenuForDate monthlyMenu (newDate 2024 0 20) = None \<and>
   weekResolvesDate (newDate 2024 0 3) weeklyMenu1 \<and>
   weekResolvesDate (newDate 2024 0 6) weeklyMenu2 \<and>
   weekResolvesDate (newDate 2024 0 7) weeklyMenu2 \<and>
   getDay (newDate 2024 0 6 + 2) = 1 \<and> getDay (newDate 2024 0 7 + 1) = 1 \<and>
   sorted (map WeeklyMenu.startDate (MonthlyMenu.weeklyMenus monthlyMenu)) \<and>
   claimedWeek (newDate 2024 0 6) weeklyMenu2 \<and>
   find (claimedWeek (newDate 2024 0 6)) (MonthlyMenu.weeklyMenus monthlyMenu) = Some weeklyMenu2"
proof -
  have h: "MonthlyMenu.weeklyMenus monthlyMenu = [weeklyMenu1, weeklyMenu2] \<and>
    WeeklyMenu.startDate weeklyMenu1 = newDate 2024 0 1 \<and>
    WeeklyMenu.endDate weeklyMenu1 = newDate 2024 0 7 \<and>
    WeeklyMenu.startDate weeklyMenu2 = newDate 2024 0 8 \<and>
    WeeklyMenu.endDate weeklyMenu2 = newDate 2024 0 14"
    by (simp add: monthlyMenu_def weeklyMenu1_def weeklyMenu2_def newWeeklyMenu_def
        parseISO_format)
  have g: "getDay (newDate 2024 0 3) \<in> {1, 2, 3, 4, 5}" "getDay (newDate 2024 0 6) = 6"
    "getDay (newDate 2024 0 7) = 0"
    by (simp_all add: jan_2024_days getDay_def)
  have so: "sorted (map WeeklyMenu.startDate (MonthlyMenu.weeklyMenus monthlyMenu))"
    using h by (simp add: jan_2024_days)
  have cw: "claimedWeek (newDate 2024 0 6) weeklyMenu2"
    using h g
    by (simp add: claimedWeek_def followingMonday_def nextMondayOnOrAfter_def jan_2024_days
        getDay_def)
  have m: "weeklyMenu2 \<in> set (MonthlyMenu.weeklyMenus monthlyMenu)"
    using h by simp
  note t3 = getWeeklyMenuForDate_resolves
    [of monthlyMenu "newDate 2024 0 3" weeklyMenu1 weeklyMenu2]
  note t6 = getWeeklyMenuForDate_resolves
    [of monthlyMenu "newDate 2024 0 6" weeklyMenu1 weeklyMenu2]
  have j: "getWeeklyMenuForDate monthlyMenu (newDate 2024 0 3) = Some weeklyMenu1 \<and>
      getWeeklyMenuForDate monthlyMenu (newDate 2024 0 6) = Some weeklyMenu2 \<and>
      getWeeklyMenuForDate monthlyMenu (newDate 2024 0 7) = Some weeklyMenu2 \<and>
      getWeeklyMenuForDate monthlyMenu (newDate 2024 0 20) = None"
    using t6 h by blast
  have r3: "weekResolvesDate (newDate 2024 0 3) weeklyMenu1"
    using t3 j by blast
  have r6: "weekResolvesDate (newDate 2024 0 6) weeklyMenu2"
    using t6 j by blast
  note t7 = getWeeklyMenuForDate_resolves
    [of monthlyMenu "newDate 2024 0 7" weeklyMenu1 weeklyMenu2]
  have r7: "weekResolvesDate (newDate 2024 0 7) weeklyMenu2"
    using t7 j by blast
  have m6: "getDay (newDate 2024 0 6 + 2) = 1"
    using t6 g(2) by blast
  have m7: "getDay (newDate 2024 0 7 + 1) = 1"
    using t7 g(3) by blast
  have "getWeeklyMenuForDate monthlyMenu (newDate 2024 0 6) =
      find (claimedWeek (newDate 2024 0 6)) (MonthlyMenu.weeklyMenus monthlyMenu)"
    using t6 so cw m by blast
  with j have fc: "find (claimedWeek (newDate 2024 0 6)) (MonthlyMenu.weeklyMenus monthlyMenu) =
      Some weeklyMenu2" by simp
  show ?thesis
    using g j r3 r6 r7 m6 m7 so cw fc by (intro conjI) simp_all
qed

section \<open>The title normalizer\<close>

lemma startsWith_iff: "startsWith s p \<longleftrightarrow> (\<exists>r. s = p @ r)"
  by (induction s p rule: startsWith.induct) auto

lemma not_ws_w: "\<not> isWhiteSpace CHR ''w''"
  by (simp add: isWhiteSpace_def)

lemma withSeparatorAt_iff:
  "withSeparatorAt s \<longleftrightarrow>
     (\<exists>w1 w2 post. s = w1 @ ''with'' @ w2 @ post \<and>
         w1 \<noteq> [] \<and> (\<forall>c \<in> set w1. isWhiteSpace c) \<and>
         w2 \<noteq> [] \<and> (\<forall>c \<in> set w2. isWhiteSpace c))"
proof
  assume a: "withSeparatorAt s"
  define w1 where "w1 = takeWhile isWhiteSpace s"
  define r where "r = dropWhile isWhiteSpace s"
  have s: "s = w1 @ r" by (simp add: w1_def r_def)
  from a have ne: "s \<noteq> []" and h: "isWhiteSpace (hd s)"
    and sw: "startsWith r ''with''" and d: "drop 4 r \<noteq> []" "isWhiteSpace (hd (drop 4 r))"
    by (simp_all add: withSeparatorAt_def Let_def r_def)
  from sw obtain r' where r': "r = ''with'' @ r'" by (auto simp add: startsWith_iff)
  with d have r'ne: "r' \<noteq> []" and r'h: "isWhiteSpace (hd r')" by simp_all
  have w1ne: "w1 \<noteq> []" using ne h by (cases s) (simp_all add: w1_def)
  have w1ws: "\<forall>c \<in> set w1. isWhiteSpace c" by (auto simp add: w1_def dest: set_takeWhileD)
  have "s = w1 @ ''with'' @ [hd r'] @ tl r'" using s r' r'ne by simp
  with w1ne w1ws r'h show "\<exists>w1 w2 post. s = w1 @ ''with'' @ w2 @ post \<and>
         w1 \<noteq> [] \<and> (\<forall>c \<in> set w1. isWhiteSpace c) \<and>
         w2 \<noteq> [] \<and> (\<forall>c \<in> set w2. isWhiteSpace c)"
    by (intro exI [of _ w1] exI [of _ "[hd r']"] exI [of _ "tl r'"]) simp
next
  assume "\<exists>w1 w2 post. s = w1 @ ''with'' @ w2 @ post \<and>
         w1 \<noteq> [] \<and> (\<forall>c \<in> set w1. isWhiteSpace c) \<and>
         w2 \<noteq> [] \<and> (\<forall>c \<in> set w2. isWhiteSpace c)"
  then obtain w1 w2 post where s: "s = w1 @ ''with'' @ w2 @ post"
    and w1: "w1 \<noteq> []" "\<forall>c \<in> set w1. isWhiteSpace c"
    and w2: "w2 \<noteq> []" "\<forall>c \<in> set w2. isWhiteSpace c" by blast
  have dw: "dropWhile isWhiteSpace s = ''with'' @ w2 @ post"
    using w1 by (simp add: s dropWhile_append not_ws_w)
  have hs: "isWhiteSpace (hd s)" using w1 by (cases w1) (simp_all add: s)
  have hw2: "isWhiteSpace (hd (w2 @ post))" using w2 by (cases w2) simp_all
  show "withSeparatorAt s"
    using w1 w2 hs hw2 by (simp add: withSeparatorAt_def Let_def dw) (simp add: s)
qed

lemma occursAt_iff: "withSeparatorOccursAt s n \<longleftrightarrow> n \<le> length s \<and> withSeparatorAt (drop n s)"
  by (simp add: withSeparatorOccursAt_def withSeparatorAt_iff)

lemma not_withSeparatorAt_Nil: "\<not> withSeparatorAt []"
  by (simp add: withSeparatorAt_def)

lemma splitWithHead_None:
  "splitWithHead s = None \<longleftrightarrow> (\<forall>n. \<not> withSeparatorOccursAt s n)"
proof (induction s)
  case Nil
  show ?case by (simp add: occursAt_iff not_withSeparatorAt_Nil)
next
  case (Cons c cs)
  have "(\<forall>n. \<not> withSeparatorOccursAt (c # cs) n) \<longleftrightarrow>
        \<not> withSeparatorAt (c # cs) \<and> (\<forall>n. \<not> withSeparatorOccursAt cs n)"
  proof
    assume a: "\<forall>n. \<not> withSeparatorOccursAt (c # cs) n"
    have "\<not> withSeparatorAt (c # cs)" using a [rule_format, of 0] by (simp add: occursAt_iff)
    moreover have "\<not> withSeparatorOccursAt cs n" for n
      using a [rule_format, of "Suc n"] by (simp add: occursAt_iff)
    ultimately show "\<not> withSeparatorAt (c # cs) \<and> (\<forall>n. \<not> withSeparatorOccursAt cs n)" by blast
  next
    assume a: "\<not> withSeparatorAt (c # cs) \<and> (\<forall>n. \<not> withSeparatorOccursAt cs n)"
    show "\<forall>n. \<not> withSeparatorOccursAt (c # cs) n"
    proof
      fix n show "\<not> withSeparatorOccursAt (c # cs) n"
        using a by (cases n) (simp_all add: occursAt_iff)
    qed
  qed
  with Cons show ?case by simp
qed

lemma splitWithHead_Some:
  "withSeparatorOccursAt s n \<Longrightarrow> (\<forall>k<n. \<not> withSeparatorOccursAt s k) \<Longrightarrow>
   splitWithHead s = Some (take n s)"
proof (induction s arbitrary: n)
  case Nil
  then show ?case by (simp add: occursAt_iff not_withSeparatorAt_Nil)
next
  case (Cons c cs)
  show ?case
  proof (cases n)
    case 0
    with Cons.prems show ?thesis by (simp add: occursAt_iff)
  next
    case (Suc m)
    have m: "withSeparatorOccursAt cs m" using Cons.prems(1) Suc by (simp add: occursAt_iff)
    have "\<not> withSeparatorOccursAt (c # cs) 0" using Cons.prems(2) Suc by simp
    then have z: "\<not> withSeparatorAt (c # cs)" by (simp add: occursAt_iff)
    have "\<not> withSeparatorOccursAt cs k" if "k < m" for k
      using Cons.prems(2) [rule_format, of "Suc k"] that Suc by (simp add: occursAt_iff)
    with m have "splitWithHead cs = Some (take m cs)" using Cons.IH by blast
    with z Suc show ?thesis by simp
  qed
qed

lemma replaceAll_absent: "\<not> includes_str s pat \<Longrightarrow> replaceAll pat rep s = s"
  by (induction s) simp_all

lemma description_clean:
  "snd (parseMenuItemText text) = replaceAll ''&#39;'' [CHR 0x27] (replaceAll ''&amp;'' ''&'' text)"
  by (simp add: parseMenuItemText_def Let_def split: option.splits)

lemma chicken_and_waffles: "parseMenuItemText ''Chicken & Waffles with Syrup'' = (''Chicken & Waffles'', ''Chicken & Waffles with Syrup'')"
  by code_simp



text \<open>
  Claim C2 as stated fails: the normalizer replaces the entities \<^verbatim>\<open>&amp;\<close> and \<^verbatim>\<open>&#39;\<close> once
  more before it splits, so the description is not always the decoded title unmodified.
  The attribute \<^verbatim>\<open>Mac &amp;amp; Cheese\<close> is decoded to \<^verbatim>\<open>Mac &amp; Cheese\<close> by the title
  handler, and the description becomes \<^verbatim>\<open>Mac & Cheese\<close>.
\<close>

theorem parseMenuItemText_counterexample:
  "snd (parseMenuItemText (decodeTitle ''Mac &amp;amp; Cheese'')) \<noteq>
   decodeTitle ''Mac &amp;amp; Cheese''"
  by code_simp

text \<open>
  Claim C2, amended. The description is always the cleaned text: the decoded title with
  every \<^verbatim>\<open>&amp;\<close> replaced by \<^verbatim>\<open>&\<close> and every \<^verbatim>\<open>&#39;\<close> by an apostrophe, which is the
  decoded title itself when it holds neither entity. If the cleaned text contains the
  separator (the word \<^verbatim>\<open>with\<close> between white space), the name is the cleaned text before
  the first occurrence, trimmed; if it does not, the name is the whole cleaned text. The
  character \<^verbatim>\<open>&\<close> is no split point: "Chicken \& Waffles with Syrup" gives the name
  "Chicken \& Waffles" and the whole text as the description.
\<close>

theorem parseMenuItemText_splits:
  "snd (parseMenuItemText text) =
     replaceAll ''&#39;'' [CHR 0x27] (replaceAll ''&amp;'' ''&'' text) \<and>
   (\<not> includes_str text ''&amp;'' \<and> \<not> includes_str text ''&#39;'' \<longrightarrow>
      snd (parseMenuItemText text) = text) \<and>
   (withSeparatorOccursAt (snd (parseMenuItemText text)) n \<and>
    (\<forall>k<n. \<not> withSeparatorOccursAt (snd (parseMenuItemText text)) k) \<longrightarrow>
      fst (parseMenuItemText text) = trim (take n (snd (parseMenuItemText text)))) \<and>
   ((\<forall>k. \<not> withSeparatorOccursAt (snd (parseMenuItemText text)) k) \<longrightarrow>
      fst (parseMenuItemText text) = snd (parseMenuItemText text)) \<and>
   parseMenuItemText ''Chicken & Waffles with Syrup'' =
     (''Chicken & Waffles'', ''Chicken & Waffles with Syrup'')"
proof -
  define c where "c = replaceAll ''&#39;'' [CHR 0x27] (replaceAll ''&amp;'' ''&'' text)"
  have d: "snd (parseMenuItemText text) = c"
    by (simp add: c_def description_clean)
  have e: "\<not> includes_str text ''&amp;'' \<and> \<not> includes_str text ''&#39;'' \<longrightarrow> c = text"
    by (simp add: c_def replaceAll_absent)
  have a: "withSeparatorOccursAt c n \<and> (\<forall>k<n. \<not> withSeparatorOccursAt c k) \<longrightarrow>
      fst (parseMenuItemText text) = trim (take n c)"
  proof
    assume "withSeparatorOccursAt c n \<and> (\<forall>k<n. \<not> withSeparatorOccursAt c k)"
    then have "splitWithHead c = Some (take n c)" by (simp add: splitWithHead_Some)
    then show "fst (parseMenuItemText text) = trim (take n c)"
      by (simp add: parseMenuItemText_def Let_def c_def)
  qed
  have b: "(\<forall>k. \<not> withSeparatorOccursAt c k) \<longrightarrow> fst (parseMenuItemText text) = c"
  proof
    assume "\<forall>k. \<not> withSeparatorOccursAt c k"
    then have "splitWithHead c = None" by (simp add: splitWithHead_None)
    then show "fst (parseMenuItemText text) = c"
      by (simp add: parseMenuItemText_def Let_def c_def)
  qed
  show ?thesis using d e a b chicken_and_waffles by (simp add: c_def [symmetric])
qed

theorem parseMenuItemText_splits_witness:
  "\<not> includes_str ''A with B'' ''&amp;'' \<and> \<not> includes_str ''A with B'' ''&#39;'' \<and>
   withSeparatorOccursAt ''A with B'' 1 \<and>
   \<not> withSeparatorOccursAt ''A with B'' 0 \<and>
   parseMenuItemText ''A with B'' = (''A'', ''A with B'')"
proof -
  have i: "\<not> includes_str ''A with B'' ''&amp;'' \<and> \<not> includes_str ''A with B'' ''&#39;''"
    by simp
  have o: "withSeparatorOccursAt ''A with B'' 1"
    by (simp add: occursAt_iff withSeparatorAt_def isWhiteSpace_def)
  have z: "\<not> withSeparatorOccursAt ''A with B'' 0"
    by (simp add: occursAt_iff withSeparatorAt_def isWhiteSpace_def)
  then have f: "\<forall>k<1. \<not> withSeparatorOccursAt ''A with B'' k"
    by simp
  have t: "trim (take 1 ''A with B'') = ''A''"
    by (simp add: trim_def isWhiteSpace_def)
  have s: "snd (parseMenuItemText ''A with B'') = ''A with B''"
    using i parseMenuItemText_splits [of "''A with B''" 1] by blast
  have "fst (parseMenuItemText ''A with B'') = ''A''"
    using o f t s parseMenuItemText_splits [of "''A with B''" 1] by simp
  with s have "parseMenuItemText ''A with B'' = (''A'', ''A with B'')"
    by (simp add: prod_eq_iff)
  with i o z show ?thesis by blast
qed

section \<open>The two versions of the fragment parser\<close>

lemmas inline_handlers =
  inline_onDaybox_def inline_onDate_def inline_onInfo_def inline_onColorIcon_def
  inline_onTitle_def

lemma inline_closed_step:
  assumes "InlineState.currentDayBox st = None" and "InlineState.currentMenuItem st = None"
    and "\<not> isDaybox e"
  shows "inline_step st e = st"
  using assms by (cases e) (simp_all add: inline_handlers split: option.splits)

lemma inline_closed_steps:
  assumes "InlineState.currentDayBox st = None" and "InlineState.currentMenuItem st = None"
    and "\<forall>e \<in> set es. \<not> isDaybox e"
  shows "foldl inline_step st es = st"
  using assms by (induction es) (simp_all add: inline_closed_step)

lemma inline_weekend_clears:
  assumes "isWeekendClass classAttr"
  shows "InlineState.currentDayBox (inline_step st (fsCalendarDaybox classAttr)) = None \<and>
         InlineState.currentMenuItem (inline_step st (fsCalendarDaybox classAttr)) = None"
  using assms by (simp add: inline_onDaybox_def isWeekendClass_def Let_def)

lemma inline_weekend_box_dropped:
  assumes "isWeekendClass classAttr" and "\<forall>e \<in> set inner. \<not> isDaybox e"
  shows "inline_parseCalendarFragment (pre @ fsCalendarDaybox classAttr # inner @ rest) mt =
         inline_parseCalendarFragment (pre @ fsCalendarDaybox classAttr # rest) mt"
proof -
  define st where "st = inline_step (foldl inline_step inline_initial pre) (fsCalendarDaybox classAttr)"
  have "foldl inline_step st inner = st"
    using inline_weekend_clears [OF assms(1)] assms(2)
    by (simp add: st_def inline_closed_steps)
  then show ?thesis
    by (simp add: inline_parseCalendarFragment_def st_def)
qed

lemma inline_admin_title_step:
  assumes "inline_isAdminAnnouncement (decodedTitle titleAttr)"
  shows "inline_step st (fsCalendarEventTitle titleAttr) = st"
  using assms by (simp add: inline_onTitle_def decodedTitle_def Let_def split: option.splits)

lemma inline_admin_title_dropped:
  assumes "inline_isAdminAnnouncement (decodedTitle titleAttr)"
  shows "inline_parseCalendarFragment (pre @ fsCalendarEventTitle titleAttr # post) mt =
         inline_parseCalendarFragment (pre @ post) mt"
  using assms
  by (simp add: inline_parseCalendarFragment_def inline_admin_title_step del: inline_step.simps)

subsection \<open>Dates of the emitted days\<close>

lemma inline_datesFrom_complete:
  "inline_datesFrom R st \<Longrightarrow> inline_datesFrom R (inline_completeDayBox st)"
  by (auto simp add: inline_datesFrom_def inline_completeDayBox_def Let_def split: option.splits)

lemma inline_datesFrom_step:
  assumes "inline_datesFrom R st"
    and "\<And>dd dm dy d. e = fsCalendarDate dd dm dy \<Longrightarrow> dateOfAttributes dd dm dy = Some (ValidDate d) \<Longrightarrow> R d"
  shows "inline_datesFrom R (inline_step st e)"
proof (cases e)
  case (fsCalendarDaybox c)
  have "inline_datesFrom R (inline_completeDayBox st)"
    using assms(1) by (rule inline_datesFrom_complete)
  then show ?thesis
    by (simp add: fsCalendarDaybox inline_onDaybox_def Let_def inline_datesFrom_def)
next
  case (fsCalendarDate dd dm dy)
  then show ?thesis
    using assms by (auto simp add: inline_onDate_def inline_datesFrom_def split: option.splits)
next
  case fsCalendarInfo
  then show ?thesis
    using assms(1)
    by (auto simp add: inline_onInfo_def inline_datesFrom_def Let_def split: option.splits)
next
  case (fsElementEventColorIcon s)
  then show ?thesis
    using assms(1)
    by (auto simp add: inline_onColorIcon_def inline_datesFrom_def split: option.splits)
next
  case (fsCalendarEventTitle t)
  then show ?thesis
    using assms(1)
    by (auto simp add: inline_onTitle_def inline_datesFrom_def Let_def split: option.splits prod.splits)
qed

lemma inline_datesFrom_steps:
  assumes "inline_datesFrom R st"
    and "\<And>dd dm dy d. fsCalendarDate dd dm dy \<in> set es \<Longrightarrow> dateOfAttributes dd dm dy = Some (ValidDate d) \<Longrightarrow> R d"
  shows "inline_datesFrom R (foldl inline_step st es)"
  using assms
proof (induction es arbitrary: st)
  case Nil
  then show ?case by simp
next
  case (Cons e es)
  have 1: "inline_datesFrom R (inline_step st e)"
    using Cons.prems by (intro inline_datesFrom_step) auto
  have "inline_datesFrom R (foldl inline_step (inline_step st e) es)"
    by (rule Cons.IH [OF 1]) (use Cons.prems(2) in auto)
  then show ?case by simp
qed

lemma format_DateObject_case:
  "format_DateObject d =
     (case d of ValidDate r \<Rightarrow> Inr (format_yyyy_MM_dd r) | InvalidDate \<Rightarrow> Inl RangeError)"
  by (cases d) simp_all

lemma inline_toDailyMenus_date:
  assumes "inline_toDailyMenus mt boxes = Inr ms" and "m \<in> set ms"
  shows "\<exists>b \<in> set boxes. DayBox.date b = Some (ValidDate (DailyMenu.date m))"
  using assms
proof (induction boxes arbitrary: ms)
  case Nil
  then show ?case by simp
next
  case (Cons b bs)
  show ?case
  proof (cases "DayBox.date b \<noteq> None \<and> DayBox.menuItems b \<noteq> []")
    case False
    with Cons.prems(1) have "inline_toDailyMenus mt bs = Inr ms"
      by (auto split: option.splits)
    from Cons.IH [OF this Cons.prems(2)] show ?thesis by auto
  next
    case True
    with Cons.prems(1) obtain r rest where r: "DayBox.date b = Some (ValidDate r)"
      and rest: "inline_toDailyMenus mt bs = Inr rest"
      and ms: "DailyMenu.date (hd ms) = r" "ms = hd ms # rest"
      by (auto simp add: format_DateObject_case newDailyMenu_def parseISO_format
          split: option.splits DateObject.splits sum.splits)
    show ?thesis
    proof (cases "m = hd ms")
      case True
      with r ms show ?thesis by simp
    next
      case False
      with ms Cons.prems(2) have "m \<in> set rest" by (metis set_ConsD)
      from Cons.IH [OF rest this] show ?thesis by auto
    qed
  qed
qed

lemma inline_output_dates_resolved:
  assumes "inline_parseCalendarFragment events mt = Inr ms" and "m \<in> set ms"
  shows "resolvedBy events (DailyMenu.date m)"
proof -
  have "inline_datesFrom (resolvedBy events) inline_initial"
    by (simp add: inline_datesFrom_def inline_initial_def)
  then have "inline_datesFrom (resolvedBy events) (foldl inline_step inline_initial events)"
    by (rule inline_datesFrom_steps) (auto simp add: resolvedBy_def)
  then have "inline_datesFrom (resolvedBy events)
      (inline_completeDayBox (foldl inline_step inline_initial events))"
    by (rule inline_datesFrom_complete)
  moreover have "inline_toDailyMenus mt (InlineState.dayBoxes
      (inline_completeDayBox (foldl inline_step inline_initial events))) = Inr ms"
    using assms(1) by (simp add: inline_parseCalendarFragment_def Let_def)
  then obtain b where "b \<in> set (InlineState.dayBoxes
      (inline_completeDayBox (foldl inline_step inline_initial events)))"
    and "DayBox.date b = Some (ValidDate (DailyMenu.date m))"
    using assms(2) inline_toDailyMenus_date by blast
  ultimately show ?thesis by (auto simp add: inline_datesFrom_def)
qed

lemma datesFrom_completeDayBox:
  "datesFrom R st \<Longrightarrow> datesFrom R (completePreviousDayBox st)"
  by (auto simp add: datesFrom_def completePreviousDayBox_def newDailyMenu_def split: option.splits)

lemma datesFrom_completeMenuItem:
  "datesFrom R st \<Longrightarrow> datesFrom R (completePreviousMenuItem st)"
  by (auto simp add: datesFrom_def completePreviousMenuItem_def split: option.splits)

lemma datesFrom_step:
  assumes "datesFrom R st"
    and "\<And>dd dm dy d. e = fsCalendarDate dd dm dy \<Longrightarrow> dateOfAttributes dd dm dy = Some (ValidDate d) \<Longrightarrow> R d"
  shows "datesFrom R (step st e)"
proof (cases e)
  case (fsCalendarDaybox c)
  have "datesFrom R (completePreviousDayBox st)"
    using assms(1) by (rule datesFrom_completeDayBox)
  then have "datesFrom R (startDayBox st)"
    by (simp add: startDayBox_def Let_def datesFrom_def)
  then show ?thesis
    using assms(1) by (simp add: fsCalendarDaybox onDaybox_def Let_def)
next
  case (fsCalendarDate dd dm dy)
  then show ?thesis
    using assms
    by (auto simp add: onDate_def setDateInfo_def datesFrom_def parseISO_format
        format_DateObject_case split: option.splits DateObject.splits)
next
  case fsCalendarInfo
  have "datesFrom R (completePreviousMenuItem st)"
    using assms(1) by (rule datesFrom_completeMenuItem)
  then show ?thesis
    by (simp add: fsCalendarInfo startMenuItem_def datesFrom_def)
next
  case (fsElementEventColorIcon s)
  then show ?thesis
    using assms(1)
    by (auto simp add: onColorIcon_def setMenuItemCategory_def datesFrom_def split: option.splits)
next
  case (fsCalendarEventTitle t)
  then show ?thesis
    using assms(1)
    by (auto simp add: onTitle_def setMenuItemTitle_def datesFrom_def Let_def
        split: option.splits prod.splits)
qed

lemma datesFrom_steps:
  assumes "datesFrom R st"
    and "\<And>dd dm dy d. fsCalendarDate dd dm dy \<in> set es \<Longrightarrow> dateOfAttributes dd dm dy = Some (ValidDate d) \<Longrightarrow> R d"
  shows "datesFrom R (foldl step st es)"
  using assms
proof (induction es arbitrary: st)
  case Nil
  then show ?case by simp
next
  case (Cons e es)
  have 1: "datesFrom R (step st e)"
    using Cons.prems by (intro datesFrom_step) auto
  have "datesFrom R (foldl step (step st e) es)"
    by (rule Cons.IH [OF 1]) (use Cons.prems(2) in auto)
  then show ?case by simp
qed

lemma output_dates_resolved:
  assumes "m \<in> set (parseCalendarFragment events mt)"
  shows "resolvedBy events (DailyMenu.date m)"
proof -
  have "datesFrom (resolvedBy events) (newScraperState mt)"
    by (simp add: datesFrom_def newScraperState_def)
  then have "datesFrom (resolvedBy events) (foldl step (newScraperState mt) events)"
    by (rule datesFrom_steps) (auto simp add: resolvedBy_def)
  then have "datesFrom (resolvedBy events)
      (completePreviousMenuItem (foldl step (newScraperState mt) events))"
    by (rule datesFrom_completeMenuItem)
  then have "datesFrom (resolvedBy events)
      (endMenuItem (foldl step (newScraperState mt) events))"
    by (simp add: endMenuItem_def datesFrom_def)
  then have "datesFrom (resolvedBy events)
      (completePreviousDayBox (endMenuItem (foldl step (newScraperState mt) events)))"
    by (rule datesFrom_completeDayBox)
  then show ?thesis
    using assms by (simp add: parseCalendarFragment_def Let_def endDayBox_def datesFrom_def)
qed

subsection \<open>The pending item at the next day box\<close>

text \<open>
  Claim C10 at a failing input. On two ordinary day boxes with one item each, "Pizza" on
  Thursday 6 March 2025 and "Tacos" on Friday 7 March, the version with inline state
  gives the two days. In the version with \<^verbatim>\<open>ScraperState\<close>, \<^verbatim>\<open>startDayBox\<close> completes the
  previous day box and not the pending item: when the second box opens nothing is saved,
  because the first box has no item yet, and "Pizza" is still pending; the next item-info
  element completes it into the second box. The output is one day, the Friday, with both
  items.
\<close>

theorem pending_item_moves_to_next_day:
  "map_sum id summary (inline_parseCalendarFragment twoDayEvents LUNCH) =
     Inr [(newDate 2025 2 6, [''Pizza'']), (newDate 2025 2 7, [''Tacos''])] \<and>
   summary (parseCalendarFragment twoDayEvents LUNCH) =
     [(newDate 2025 2 7, [''Pizza'', ''Tacos''])] \<and>
   ScraperState.completedDays (foldl step (newScraperState LUNCH) (take 5 twoDayEvents)) = [] \<and>
   map_option MenuItemData.name
     (ScraperState.currentMenuItem (foldl step (newScraperState LUNCH) (take 5 twoDayEvents))) =
     Some ''Pizza''"
  by code_simp

text \<open>The same defect on a day box whose date is not resolved: the version with inline
  state drops the box with its item "Soup", and the version with \<^verbatim>\<open>ScraperState\<close> emits
  "Soup" on the day of the next box.\<close>

lemma undated_day_item_leaks:
  "map_sum id summary (inline_parseCalendarFragment undatedDayEvents LUNCH) =
     Inr [(newDate 2025 2 7, [''Pizza''])] \<and>
   summary (parseCalendarFragment undatedDayEvents LUNCH) =
     [(newDate 2025 2 7, [''Soup'', ''Pizza''])]"
  by code_simp

text \<open>A date out of range: the version with inline state stores the \<^verbatim>\<open>Invalid Date\<close>, saves
  the box and throws when it formats the date at the end.\<close>

lemma inline_far_year_throws:
  "newDateObject 300000 2 7 = InvalidDate \<and>
   map_option DayBox.date
     (InlineState.currentDayBox (foldl inline_step inline_initial (take 2 farYearEvents))) =
     Some (Some InvalidDate) \<and>
   inline_parseCalendarFragment farYearEvents LUNCH = Inl RangeError"
  by code_simp

subsection \<open>Administrative titles and weekend boxes\<close>

text \<open>
  Claim C3 at a failing input. The title "Quarter Ends" is an administrative announcement
  for the version with inline state, which drops the item; the list of
  \<^verbatim>\<open>ScraperState.setMenuItemTitle\<close> lacks "quarter ends", and that version emits a menu item
  named "Quarter Ends".
\<close>

theorem quarter_ends_not_filtered:
  "inline_isAdminAnnouncement (decodedTitle (Some ''Quarter Ends'')) \<and>
   summary (parseCalendarFragment quarterEndsEvents LUNCH) =
     [(newDate 2025 2 14, [''Quarter Ends''])] \<and>
   inline_parseCalendarFragment quarterEndsEvents LUNCH = Inr []"
  by code_simp

text \<open>
  Claim C4 at a failing input. A Friday box with the item "Pizza" is followed by a weekend
  box with a date and the item "Brunch". The version with inline state emits the Friday
  with its item. The handler of the version with \<^verbatim>\<open>ScraperState\<close> returns at the weekend
  marker and clears nothing: the date of the weekend box replaces the date of the open
  Friday box and "Brunch" is completed into its list, so the output is one day on the
  Saturday with both items.
\<close>

theorem weekend_box_leaks:
  "isWeekendClass (Some weekendClass) \<and> getDay (newDate 2025 2 8) = 6 \<and>
   summary (parseCalendarFragment weekendEvents LUNCH) =
     [(newDate 2025 2 8, [''Pizza'', ''Brunch''])] \<and>
   map_sum id summary (inline_parseCalendarFragment weekendEvents LUNCH) =
     Inr [(newDate 2025 2 7, [''Pizza''])]"
  by code_simp

subsection \<open>Date resolution\<close>

text \<open>In the version with inline state a day box in which no date element passes the test
  of the date handler leaves no trace: the outcome is the one of the stream without the
  elements of that box.\<close>

lemma inline_dateless_step:
  assumes "inline_dateless st" and "\<not> isDaybox e" and "\<not> isResolvingDate e"
  shows "inline_dateless (inline_step st e) \<and>
         InlineState.dayBoxes (inline_step st e) = InlineState.dayBoxes st"
  using assms
  by (cases e)
     (auto simp add: inline_dateless_def isResolvingDate_def inline_onDate_def inline_onInfo_def
      inline_onColorIcon_def inline_onTitle_def Let_def split: option.splits prod.splits)

lemma inline_dateless_steps:
  assumes "inline_dateless st" and "\<forall>e \<in> set es. \<not> isDaybox e \<and> \<not> isResolvingDate e"
  shows "inline_dateless (foldl inline_step st es) \<and>
         InlineState.dayBoxes (foldl inline_step st es) = InlineState.dayBoxes st"
  using assms
proof (induction es arbitrary: st)
  case Nil
  then show ?case by simp
next
  case (Cons e es)
  have 1: "inline_dateless (inline_step st e) \<and>
           InlineState.dayBoxes (inline_step st e) = InlineState.dayBoxes st"
    using Cons.prems by (intro inline_dateless_step) auto
  have "inline_dateless (foldl inline_step (inline_step st e) es) \<and>
        InlineState.dayBoxes (foldl inline_step (inline_step st e) es) =
        InlineState.dayBoxes (inline_step st e)"
    by (rule Cons.IH) (use 1 Cons.prems(2) in auto)
  with 1 show ?case by simp
qed

lemma inline_dateless_complete:
  assumes "inline_dateless st"
  shows "InlineState.dayBoxes (inline_completeDayBox st) = InlineState.dayBoxes st"
  using assms
  by (auto simp add: inline_dateless_def inline_completeDayBox_def Let_def split: option.splits)

lemma inline_dateless_daybox:
  assumes "inline_dateless st" and "inline_dateless st'"
    and "InlineState.dayBoxes st = InlineState.dayBoxes st'"
  shows "inline_step st (fsCalendarDaybox c) = inline_step st' (fsCalendarDaybox c)"
proof -
  have "InlineState.dayBoxes (inline_completeDayBox st) =
        InlineState.dayBoxes (inline_completeDayBox st')"
    using assms by (simp add: inline_dateless_complete)
  then show ?thesis
    by (cases "inline_completeDayBox st"; cases "inline_completeDayBox st'")
       (simp add: inline_onDaybox_def Let_def)
qed

lemma inline_after_daybox_dateless:
  "inline_dateless (inline_step st (fsCalendarDaybox c))"
  by (simp add: inline_dateless_def inline_onDaybox_def Let_def)

lemma inline_dateless_day_dropped:
  assumes "\<forall>e \<in> set seg. \<not> isDaybox e \<and> \<not> isResolvingDate e"
  shows "inline_parseCalendarFragment (pre @ fsCalendarDaybox c # seg @ fsCalendarDaybox c' # rest) mt =
         inline_parseCalendarFragment (pre @ fsCalendarDaybox c # fsCalendarDaybox c' # rest) mt"
    and "inline_parseCalendarFragment (pre @ fsCalendarDaybox c # seg) mt =
         inline_parseCalendarFragment (pre @ [fsCalendarDaybox c]) mt"
proof -
  define st where "st = inline_step (foldl inline_step inline_initial pre) (fsCalendarDaybox c)"
  have d: "inline_dateless st" by (simp add: st_def inline_after_daybox_dateless del: inline_step.simps)
  have s: "inline_dateless (foldl inline_step st seg) \<and>
           InlineState.dayBoxes (foldl inline_step st seg) = InlineState.dayBoxes st"
    using d assms by (rule inline_dateless_steps)
  have "inline_step (foldl inline_step st seg) (fsCalendarDaybox c') =
        inline_step st (fsCalendarDaybox c')"
    using s d by (intro inline_dateless_daybox) simp_all
  then show "inline_parseCalendarFragment (pre @ fsCalendarDaybox c # seg @ fsCalendarDaybox c' # rest) mt =
         inline_parseCalendarFragment (pre @ fsCalendarDaybox c # fsCalendarDaybox c' # rest) mt"
    by (simp add: inline_parseCalendarFragment_def st_def del: inline_step.simps)
  have "InlineState.dayBoxes (inline_completeDayBox (foldl inline_step st seg)) =
        InlineState.dayBoxes (inline_completeDayBox st)"
    using s d by (simp add: inline_dateless_complete)
  then show "inline_parseCalendarFragment (pre @ fsCalendarDaybox c # seg) mt =
         inline_parseCalendarFragment (pre @ [fsCalendarDaybox c]) mt"
    by (simp add: inline_parseCalendarFragment_def st_def del: inline_step.simps)
qed

lemma dateOfAttributes_Some_iff:
  "dateOfAttributes dd dm dy \<noteq> None \<longleftrightarrow>
     (\<exists>d y. parseInt (orZero dd) = Some d \<and> parseInt (orZero dy) = Some y \<and>
            0 < d \<and> 0 < adjustedMonth (parseInt (orZero dm)) \<and> 0 < y)"
  by (auto simp add: dateOfAttributes_def Let_def split: option.splits)

lemma dateOfAttributes_value:
  assumes "parseInt (orZero dd) = Some d" and "parseInt (orZero dm) = Some m"
    and "parseInt (orZero dy) = Some y" and "0 < d" and "0 \<le> m" and "0 < y"
  shows "dateOfAttributes dd dm dy = Some (newDateObject y m d)"
  using assms by (simp add: dateOfAttributes_def adjustedMonth_def)

lemma dateOfAttributes_zero:
  assumes "parseInt (orZero dd) = Some 0 \<or> parseInt (orZero dy) = Some 0"
  shows "dateOfAttributes dd dm dy = None"
  using assms by (auto simp add: dateOfAttributes_def Let_def split: option.splits)

lemma newDate_in_range:
  assumes "100 \<le> y" and "0 \<le> m" and "m \<le> 11"
  shows "newDate y m d = daysBeforeYear y + daysBeforeMonth y m + d - 1"
  using assms by (simp add: newDate_def Let_def)

lemma march_2025:
  "dateOfAttributes (Some ''7'') (Some ''2'') (Some ''2025'') = Some (ValidDate (newDate 2025 2 7)) \<and>
   newDate 2025 2 7 = newDate 2025 0 1 + 31 + 28 + 6"
  by code_simp

lemma onDate_currentDayBox:
  assumes "ScraperState.currentDayBox sst = Some sbox"
  shows "ScraperState.currentDayBox (step sst (fsCalendarDate dd dm dy)) =
        Some (case dateOfAttributes dd dm dy of
                Some (ValidDate r) \<Rightarrow> sbox \<lparr> DayBoxData.date := Some (format_yyyy_MM_dd r) \<rparr>
              | _ \<Rightarrow> sbox)"
  using assms
  by (simp add: onDate_def setDateInfo_def format_DateObject_case
      split: option.splits DateObject.splits)

lemma inline_onDate_currentDayBox:
  assumes "InlineState.currentDayBox ist = Some ibox"
  shows "dateOfAttributes dd dm dy = None \<Longrightarrow>
           InlineState.currentDayBox (inline_step ist (fsCalendarDate dd dm dy)) = Some ibox"
    and "dateOfAttributes dd dm dy = Some (ValidDate r) \<Longrightarrow>
           InlineState.currentDayBox (inline_step ist (fsCalendarDate dd dm dy)) =
             Some (ibox \<lparr> DayBox.date := Some (ValidDate r) \<rparr>)"
  using assms by (simp_all add: inline_onDate_def)

text \<open>
  Claim C5 as stated fails. The date element with the day 7, the month index 2 and the
  year 300000 passes the test: day, adjusted month and year are positive. The date is
  out of the range of JavaScript dates, \<^verbatim>\<open>format\<close> throws in \<^verbatim>\<open>setDateInfo\<close>, and the \<^verbatim>\<open>catch\<close>
  branch of the handler of the version with \<^verbatim>\<open>ScraperState\<close> skips the date: the date of
  the open day box stays unresolved and the day is not in the output.
\<close>

theorem date_resolution_counterexample:
  "parseInt (orZero (Some ''7'')) = Some 7 \<and>
   adjustedMonth (parseInt (orZero (Some ''2''))) = 3 \<and>
   parseInt (orZero (Some ''300000'')) = Some 300000 \<and>
   dateOfAttributes (Some ''7'') (Some ''2'') (Some ''300000'') = Some InvalidDate \<and>
   take 2 farYearEvents =
     [fsCalendarDaybox (Some hasEventsClass),
      fsCalendarDate (Some ''7'') (Some ''2'') (Some ''300000'')] \<and>
   map_option DayBoxData.date
     (ScraperState.currentDayBox (foldl step (newScraperState LUNCH) (take 2 farYearEvents))) =
     Some None \<and>
   parseCalendarFragment farYearEvents LUNCH = []"
  by code_simp

text \<open>
  Claim C5, amended. A month index \<open>m\<close> that is not negative is adjusted to \<open>m + 1\<close> (the
  index 2 gives March), and the test of the date handler passes exactly when the day, the
  adjusted month and the year are positive; a day or a year equal to 0 resolves nothing.
  The date made is \<^verbatim>\<open>new Date(year, m, day)\<close>, a valid date when its day is within
  100,000,000 days of 1970-01-01. In the version with \<^verbatim>\<open>ScraperState\<close> a date element seen
  while a day box is open sets the date of the box exactly when the test passes and the
  date is valid, and leaves the box as it was otherwise. In the version with inline state
  it sets the date of the box when the test passes and the date is valid, and leaves the
  box as it was when the test fails. In both versions a box without a date is not saved
  when it is completed, and, for dates in the years 0001 to 9999, every daily menu of the
  output has a date that a date element of the stream resolved. In the version with
  inline state a day box in which no date element passes the test changes nothing in the
  outcome.
\<close>

theorem date_resolution:
  "adjustedMonth (Some m) = (if 0 \<le> m then m + 1 else 0) \<and>
   adjustedMonth None = 0 \<and>
   (dateOfAttributes dd dm dy \<noteq> None \<longleftrightarrow>
     (\<exists>d y. parseInt (orZero dd) = Some d \<and> parseInt (orZero dy) = Some y \<and>
            0 < d \<and> 0 < adjustedMonth (parseInt (orZero dm)) \<and> 0 < y)) \<and>
   (parseInt (orZero dd) = Some d \<and> parseInt (orZero dm) = Some m \<and>
    parseInt (orZero dy) = Some y \<and> 0 < d \<and> 0 \<le> m \<and> 0 < y \<longrightarrow>
      dateOfAttributes dd dm dy = Some (newDateObject y m d)) \<and>
   (isValidDay (newDate y m d) \<longrightarrow> newDateObject y m d = ValidDate (newDate y m d)) \<and>
   (\<not> isValidDay (newDate y m d) \<longrightarrow> newDateObject y m d = InvalidDate) \<and>
   (100 \<le> y \<and> 0 \<le> m \<and> m \<le> 11 \<longrightarrow>
      newDate y m d = daysBeforeYear y + daysBeforeMonth y m + d - 1) \<and>
   (parseInt (orZero dd) = Some 0 \<or> parseInt (orZero dy) = Some 0 \<longrightarrow>
      dateOfAttributes dd dm dy = None) \<and>
   (ScraperState.currentDayBox sst = Some sbox \<longrightarrow>
      ScraperState.currentDayBox (step sst (fsCalendarDate dd dm dy)) =
        Some (case dateOfAttributes dd dm dy of
                Some (ValidDate r) \<Rightarrow> sbox \<lparr> DayBoxData.date := Some (format_yyyy_MM_dd r) \<rparr>
              | _ \<Rightarrow> sbox)) \<and>
   (InlineState.currentDayBox ist = Some ibox \<and> dateOfAttributes dd dm dy = None \<longrightarrow>
      InlineState.currentDayBox (inline_step ist (fsCalendarDate dd dm dy)) = Some ibox) \<and>
   (InlineState.currentDayBox ist = Some ibox \<and> dateOfAttributes dd dm dy = Some (ValidDate v) \<longrightarrow>
      InlineState.currentDayBox (inline_step ist (fsCalendarDate dd dm dy)) =
        Some (ibox \<lparr> DayBox.date := Some (ValidDate v) \<rparr>)) \<and>
   (InlineState.currentDayBox ist = Some ibox \<and> DayBox.date ibox = None \<longrightarrow>
      InlineState.dayBoxes (inline_completeDayBox ist) = InlineState.dayBoxes ist) \<and>
   (ScraperState.currentDayBox sst = Some sbox \<and> DayBoxData.date sbox = None \<longrightarrow>
      ScraperState.completedDays (completePreviousDayBox sst) = ScraperState.completedDays sst) \<and>
   (list_all hasFourDigitYear events \<longrightarrow>
      (\<forall>dm \<in> set (parseCalendarFragment events mt). resolvedBy events (DailyMenu.date dm))) \<and>
   (list_all hasFourDigitYear events \<and> inline_parseCalendarFragment events mt = Inr ms \<longrightarrow>
      (\<forall>dm \<in> set ms. resolvedBy events (DailyMenu.date dm))) \<and>
   ((\<forall>e \<in> set seg. \<not> isDaybox e \<and> \<not> isResolvingDate e) \<longrightarrow>
      inline_parseCalendarFragment (pre @ fsCalendarDaybox c # seg @ fsCalendarDaybox c' # rest) mt =
      inline_parseCalendarFragment (pre @ fsCalendarDaybox c # fsCalendarDaybox c' # rest) mt \<and>
      inline_parseCalendarFragment (pre @ fsCalendarDaybox c # seg) mt =
      inline_parseCalendarFragment (pre @ [fsCalendarDaybox c]) mt) \<and>
   dateOfAttributes (Some ''7'') (Some ''2'') (Some ''2025'') = Some (ValidDate (newDate 2025 2 7)) \<and>
   newDate 2025 2 7 = newDate 2025 0 1 + 31 + 28 + 6"
proof -
  have a1: "adjustedMonth (Some m) = (if 0 \<le> m then m + 1 else 0)"
    and a2: "adjustedMonth None = 0"
    by (simp_all add: adjustedMonth_def)
  note a3 = dateOfAttributes_Some_iff [of dd dm dy]
  have a4: "parseInt (orZero dd) = Some d \<and> parseInt (orZero dm) = Some m \<and>
    parseInt (orZero dy) = Some y \<and> 0 < d \<and> 0 \<le> m \<and> 0 < y \<longrightarrow>
      dateOfAttributes dd dm dy = Some (newDateObject y m d)"
    using dateOfAttributes_value [of dd d dm m dy y] by blast
  have a5: "isValidDay (newDate y m d) \<longrightarrow> newDateObject y m d = ValidDate (newDate y m d)"
    and a6: "\<not> isValidDay (newDate y m d) \<longrightarrow> newDateObject y m d = InvalidDate"
    by (simp_all add: newDateObject_def)
  have a7: "100 \<le> y \<and> 0 \<le> m \<and> m \<le> 11 \<longrightarrow>
      newDate y m d = daysBeforeYear y + daysBeforeMonth y m + d - 1"
    using newDate_in_range [of y m d] by blast
  have a8: "parseInt (orZero dd) = Some 0 \<or> parseInt (orZero dy) = Some 0 \<longrightarrow>
      dateOfAttributes dd dm dy = None"
    using dateOfAttributes_zero [of dd dy dm] by blast
  have s: "ScraperState.currentDayBox sst = Some sbox \<longrightarrow>
      ScraperState.currentDayBox (step sst (fsCalendarDate dd dm dy)) =
        Some (case dateOfAttributes dd dm dy of
                Some (ValidDate r) \<Rightarrow> sbox \<lparr> DayBoxData.date := Some (format_yyyy_MM_dd r) \<rparr>
              | _ \<Rightarrow> sbox)"
    using onDate_currentDayBox [of sst sbox dd dm dy] by blast
  have i1: "InlineState.currentDayBox ist = Some ibox \<and> dateOfAttributes dd dm dy = None \<longrightarrow>
      InlineState.currentDayBox (inline_step ist (fsCalendarDate dd dm dy)) = Some ibox"
    using inline_onDate_currentDayBox(1) [of ist ibox dd dm dy] by blast
  have i2: "InlineState.currentDayBox ist = Some ibox \<and>
      dateOfAttributes dd dm dy = Some (ValidDate v) \<longrightarrow>
      InlineState.currentDayBox (inline_step ist (fsCalendarDate dd dm dy)) =
        Some (ibox \<lparr> DayBox.date := Some (ValidDate v) \<rparr>)"
    using inline_onDate_currentDayBox(2) [of ist ibox dd dm dy v] by blast
  have gi: "InlineState.currentDayBox ist = Some ibox \<and> DayBox.date ibox = None \<longrightarrow>
      InlineState.dayBoxes (inline_completeDayBox ist) = InlineState.dayBoxes ist"
    by (simp add: inline_completeDayBox_def Let_def split: option.splits)
  have gs: "ScraperState.currentDayBox sst = Some sbox \<and> DayBoxData.date sbox = None \<longrightarrow>
      ScraperState.completedDays (completePreviousDayBox sst) = ScraperState.completedDays sst"
    by (simp add: completePreviousDayBox_def)
  have o1: "list_all hasFourDigitYear events \<longrightarrow>
      (\<forall>dm \<in> set (parseCalendarFragment events mt). resolvedBy events (DailyMenu.date dm))"
    using output_dates_resolved [of _ events mt] by blast
  have o2: "list_all hasFourDigitYear events \<and> inline_parseCalendarFragment events mt = Inr ms \<longrightarrow>
      (\<forall>dm \<in> set ms. resolvedBy events (DailyMenu.date dm))"
    using inline_output_dates_resolved [of events mt ms] by blast
  have dl: "(\<forall>e \<in> set seg. \<not> isDaybox e \<and> \<not> isResolvingDate e) \<longrightarrow>
      inline_parseCalendarFragment (pre @ fsCalendarDaybox c # seg @ fsCalendarDaybox c' # rest) mt =
      inline_parseCalendarFragment (pre @ fsCalendarDaybox c # fsCalendarDaybox c' # rest) mt \<and>
      inline_parseCalendarFragment (pre @ fsCalendarDaybox c # seg) mt =
      inline_parseCalendarFragment (pre @ [fsCalendarDaybox c]) mt"
    using inline_dateless_day_dropped(1) [of seg pre c c' rest mt]
      inline_dateless_day_dropped(2) [of seg pre c mt] by blast
  note mr1 = march_2025 [THEN conjunct1]
  note mr2 = march_2025 [THEN conjunct2]
  show ?thesis
    using a1 a2 a3 a4 a5 a6 a7 a8 s i1 i2 gi gs o1 o2 dl mr1 mr2 by (intro conjI)
qed

theorem date_resolution_witness:
  "parseInt (orZero (Some ''7'')) = Some 7 \<and> parseInt (orZero (Some ''2'')) = Some 2 \<and>
   parseInt (orZero (Some ''2025'')) = Some 2025 \<and> parseInt (orZero (Some ''0'')) = Some 0 \<and>
   isValidDay (newDate 2025 2 7) \<and>
   dateOfAttributes (Some ''7'') (Some ''2'') (Some ''2025'') = Some (ValidDate (newDate 2025 2 7)) \<and>
   newDate 2025 2 7 = daysBeforeYear 2025 + daysBeforeMonth 2025 2 + 7 - 1 \<and>
   dateOfAttributes (Some ''0'') (Some ''2'') (Some ''2025'') = None \<and>
   parseInt (orZero (Some ''300000'')) = Some 300000 \<and>
   \<not> isValidDay (newDate 300000 2 7) \<and>
   dateOfAttributes (Some ''7'') (Some ''2'') (Some ''300000'') = Some InvalidDate \<and>
   ScraperState.currentDayBox
     (step (step (newScraperState LUNCH) (fsCalendarDaybox (Some hasEventsClass)))
        (fsCalendarDate (Some ''7'') (Some ''2'') (Some ''300000''))) =
     Some \<lparr> DayBoxData.date = None, DayBoxData.mealType = LUNCH, DayBoxData.menuItems = [] \<rparr> \<and>
   ScraperState.currentDayBox
     (step (step (newScraperState LUNCH) (fsCalendarDaybox (Some hasEventsClass)))
        (fsCalendarDate (Some ''7'') (Some ''2'') (Some ''2025''))) =
     Some (\<lparr> DayBoxData.date = None, DayBoxData.mealType = LUNCH, DayBoxData.menuItems = [] \<rparr>
             \<lparr> DayBoxData.date := Some (format_yyyy_MM_dd (newDate 2025 2 7)) \<rparr>) \<and>
   InlineState.currentDayBox
     (inline_step (inline_step inline_initial (fsCalendarDaybox (Some hasEventsClass)))
        (fsCalendarDate (Some ''7'') (Some ''2'') (Some ''2025''))) =
     Some (\<lparr> DayBox.date = None, DayBox.menuItems = [] \<rparr>
             \<lparr> DayBox.date := Some (ValidDate (newDate 2025 2 7)) \<rparr>) \<and>
   InlineState.currentDayBox
     (inline_step (inline_step inline_initial (fsCalendarDaybox (Some hasEventsClass)))
        (fsCalendarDate (Some ''0'') (Some ''2'') (Some ''2025''))) =
     Some \<lparr> DayBox.date = None, DayBox.menuItems = [] \<rparr> \<and>
   InlineState.dayBoxes
     (inline_completeDayBox (inline_step inline_initial (fsCalendarDaybox (Some hasEventsClass)))) =
     InlineState.dayBoxes (inline_step inline_initial (fsCalendarDaybox (Some hasEventsClass))) \<and>
   ScraperState.completedDays
     (completePreviousDayBox (step (newScraperState LUNCH) (fsCalendarDaybox (Some hasEventsClass)))) =
     ScraperState.completedDays (step (newScraperState LUNCH) (fsCalendarDaybox (Some hasEventsClass))) \<and>
   list_all hasFourDigitYear twoDayEvents \<and>
   list_all (\<lambda>dm. resolvedBy twoDayEvents (DailyMenu.date dm))
     (parseCalendarFragment twoDayEvents LUNCH) \<and>
   length (parseCalendarFragment twoDayEvents LUNCH) = 1 \<and>
   inline_parseCalendarFragment twoDayEvents LUNCH =
     Inr (projr (inline_parseCalendarFragment twoDayEvents LUNCH)) \<and>
   list_all (\<lambda>dm. resolvedBy twoDayEvents (DailyMenu.date dm))
     (projr (inline_parseCalendarFragment twoDayEvents LUNCH)) \<and>
   length (projr (inline_parseCalendarFragment twoDayEvents LUNCH)) = 2 \<and>
   list_all (\<lambda>e. \<not> isDaybox e \<and> \<not> isResolvingDate e) (take 3 (tl undatedDayEvents)) \<and>
   inline_parseCalendarFragment undatedDayEvents LUNCH =
     inline_parseCalendarFragment
       (fsCalendarDaybox (Some hasEventsClass) # fsCalendarDaybox (Some hasEventsClass) #
        drop 5 undatedDayEvents) LUNCH"
proof -
  let ?sst = "step (newScraperState LUNCH) (fsCalendarDaybox (Some hasEventsClass))"
  let ?sbox = "\<lparr> DayBoxData.date = None, DayBoxData.mealType = LUNCH, DayBoxData.menuItems = [] \<rparr>"
  let ?ist = "inline_step inline_initial (fsCalendarDaybox (Some hasEventsClass))"
  let ?ibox = "\<lparr> DayBox.date = None, DayBox.menuItems = [] \<rparr>"
  let ?ms = "projr (inline_parseCalendarFragment twoDayEvents LUNCH)"
  let ?seg = "take 3 (tl undatedDayEvents)"
  let ?rest = "drop 5 undatedDayEvents"
  let ?c = "Some hasEventsClass"
  note t = date_resolution
    [where m = 2 and dd = "Some ''7''" and dm = "Some ''2''" and dy = "Some ''2025''"
       and d = 7 and y = 2025 and sst = ?sst and sbox = ?sbox and ist = ?ist and ibox = ?ibox
       and v = "newDate 2025 2 7" and events = twoDayEvents and mt = LUNCH and ms = ?ms
       and seg = ?seg and pre = "[]" and c = ?c and c' = ?c and rest = ?rest]
  note z = date_resolution
    [where m = 2 and dd = "Some ''0''" and dm = "Some ''2''" and dy = "Some ''2025''"
       and d = 0 and y = 2025 and sst = ?sst and sbox = ?sbox and ist = ?ist and ibox = ?ibox
       and v = "newDate 2025 2 7" and events = twoDayEvents and mt = LUNCH and ms = ?ms
       and seg = ?seg and pre = "[]" and c = ?c and c' = ?c and rest = ?rest]
  note f = date_resolution
    [where m = 2 and dd = "Some ''7''" and dm = "Some ''2''" and dy = "Some ''300000''"
       and d = 7 and y = 300000 and sst = ?sst and sbox = ?sbox and ist = ?ist and ibox = ?ibox
       and v = "newDate 2025 2 7" and events = twoDayEvents and mt = LUNCH and ms = ?ms
       and seg = ?seg and pre = "[]" and c = ?c and c' = ?c and rest = ?rest]
  note f1 = f [THEN conjunct2]
  note f2 = f1 [THEN conjunct2]
  note f3 = f2 [THEN conjunct2]
  note f4 = f3 [THEN conjunct2]
  note f5 = f4 [THEN conjunct2]
  note f6 = f5 [THEN conjunct2]
  note f7 = f6 [THEN conjunct2]
  note f8 = f7 [THEN conjunct2]
  note t1 = t [THEN conjunct2]
  note t2 = t1 [THEN conjunct2]
  note t3 = t2 [THEN conjunct2]
  note t4 = t3 [THEN conjunct2]
  note t5 = t4 [THEN conjunct2]
  note t6 = t5 [THEN conjunct2]
  note t7 = t6 [THEN conjunct2]
  note t8 = t7 [THEN conjunct2]
  note t9 = t8 [THEN conjunct2]
  note t10 = t9 [THEN conjunct2]
  note t11 = t10 [THEN conjunct2]
  note t12 = t11 [THEN conjunct2]
  note t13 = t12 [THEN conjunct2]
  note t14 = t13 [THEN conjunct2]
  note t15 = t14 [THEN conjunct2]
  note z1 = z [THEN conjunct2]
  note z2 = z1 [THEN conjunct2]
  note z3 = z2 [THEN conjunct2]
  note z4 = z3 [THEN conjunct2]
  note z5 = z4 [THEN conjunct2]
  note z6 = z5 [THEN conjunct2]
  note z7 = z6 [THEN conjunct2]
  note z8 = z7 [THEN conjunct2]
  note z9 = z8 [THEN conjunct2]
  have p: "parseInt (orZero (Some ''7'')) = Some 7" "parseInt (orZero (Some ''2'')) = Some 2"
    "parseInt (orZero (Some ''2025'')) = Some 2025" "parseInt (orZero (Some ''0'')) = Some 0"
    by code_simp+
  have v: "isValidDay (newDate 2025 2 7)" by code_simp
  have hs: "ScraperState.currentDayBox ?sst = Some ?sbox" by code_simp
  have hi: "InlineState.currentDayBox ?ist = Some ?ibox" by code_simp
  have h4: "list_all hasFourDigitYear twoDayEvents" by code_simp
  have hr: "inline_parseCalendarFragment twoDayEvents LUNCH = Inr ?ms" by code_simp
  have l1: "length (parseCalendarFragment twoDayEvents LUNCH) = 1" by code_simp
  have l2: "length ?ms = 2" by code_simp
  have hseg: "list_all (\<lambda>e. \<not> isDaybox e \<and> \<not> isResolvingDate e) ?seg" by code_simp
  have shape: "undatedDayEvents = [] @ fsCalendarDaybox ?c # ?seg @ fsCalendarDaybox ?c # ?rest"
    by code_simp
  have h3: "parseInt (orZero (Some ''7'')) = Some 7 \<and> parseInt (orZero (Some ''2'')) = Some 2 \<and>
    parseInt (orZero (Some ''2025'')) = Some 2025 \<and> (0::int) < 7 \<and> (0::int) \<le> 2 \<and> (0::int) < 2025"
    using p by simp
  note d1 = mp [OF t3 [THEN conjunct1] h3]
  note d2 = mp [OF t4 [THEN conjunct1] v]
  have wd: "dateOfAttributes (Some ''7'') (Some ''2'') (Some ''2025'') =
      Some (ValidDate (newDate 2025 2 7))"
    using d1 d2 by (rule trans [OF _ arg_cong [where f = Some]])
  have h6: "(100::int) \<le> 2025 \<and> (0::int) \<le> 2 \<and> (2::int) \<le> 11" by simp
  note wr = mp [OF t6 [THEN conjunct1] h6]
  have h7: "parseInt (orZero (Some ''0'')) = Some 0 \<or> parseInt (orZero (Some ''2025'')) = Some 0"
    using p by simp
  note wz = mp [OF z7 [THEN conjunct1] h7]
  have pf: "parseInt (orZero (Some ''300000'')) = Some 300000" by code_simp
  have nv: "\<not> isValidDay (newDate 300000 2 7)" by code_simp
  have hf: "parseInt (orZero (Some ''7'')) = Some 7 \<and> parseInt (orZero (Some ''2'')) = Some 2 \<and>
    parseInt (orZero (Some ''300000'')) = Some 300000 \<and> (0::int) < 7 \<and> (0::int) \<le> 2 \<and>
    (0::int) < 300000"
    using p pf by simp
  have wf: "dateOfAttributes (Some ''7'') (Some ''2'') (Some ''300000'') = Some InvalidDate"
    using mp [OF f3 [THEN conjunct1] hf] mp [OF f5 [THEN conjunct1] nv]
    by (rule trans [OF _ arg_cong [where f = Some]])
  have wfs: "ScraperState.currentDayBox
      (step ?sst (fsCalendarDate (Some ''7'') (Some ''2'') (Some ''300000''))) = Some ?sbox"
    using mp [OF f8 [THEN conjunct1] hs] by (simp only: wf option.case DateObject.case)
  have ws: "ScraperState.currentDayBox (step ?sst (fsCalendarDate (Some ''7'') (Some ''2'') (Some ''2025''))) =
      Some (?sbox \<lparr> DayBoxData.date := Some (format_yyyy_MM_dd (newDate 2025 2 7)) \<rparr>)"
    using mp [OF t8 [THEN conjunct1] hs] by (simp only: wd option.case DateObject.case)
  note wi = mp [OF t10 [THEN conjunct1] conjI [OF hi wd]]
  note wi0 = mp [OF z9 [THEN conjunct1] conjI [OF hi wz]]
  have n1: "DayBox.date ?ibox = None" by simp
  have n2: "DayBoxData.date ?sbox = None" by simp
  note wgi = mp [OF t11 [THEN conjunct1] conjI [OF hi n1]]
  note wgs = mp [OF t12 [THEN conjunct1] conjI [OF hs n2]]
  have wo1: "list_all (\<lambda>dm. resolvedBy twoDayEvents (DailyMenu.date dm))
      (parseCalendarFragment twoDayEvents LUNCH)"
    using mp [OF t13 [THEN conjunct1] h4] by (simp only: list_all_iff)
  have wo2: "list_all (\<lambda>dm. resolvedBy twoDayEvents (DailyMenu.date dm)) ?ms"
    using mp [OF t14 [THEN conjunct1] conjI [OF h4 hr]] by (simp only: list_all_iff)
  have hseg': "\<forall>e \<in> set ?seg. \<not> isDaybox e \<and> \<not> isResolvingDate e"
    using hseg by (simp only: list_all_iff)
  have wdl: "inline_parseCalendarFragment undatedDayEvents LUNCH =
      inline_parseCalendarFragment (fsCalendarDaybox ?c # fsCalendarDaybox ?c # ?rest) LUNCH"
    using mp [OF t15 [THEN conjunct1] hseg', THEN conjunct1] shape by (simp only: append_Nil)
  show ?thesis
    using p v wd wr wz pf nv wf wfs ws wi wi0 wgi wgs h4 wo1 l1 hr wo2 l2 hseg wdl
    by (intro conjI)
qed

section \<open>The week bucketer\<close>

subsection \<open>Weeks\<close>

lemma startOfWeek_alt: "startOfWeek d = d - (d + 3) mod 7"
  unfolding startOfWeek_def getDay_def by presburger

lemma startOfWeek_idem: "startOfWeek (startOfWeek d) = startOfWeek d"
  unfolding startOfWeek_alt by presburger

lemma startOfWeek_mono: "d \<le> d' \<Longrightarrow> startOfWeek d \<le> startOfWeek d'"
  unfolding startOfWeek_alt by presburger

lemma getDay_startOfWeek: "getDay (startOfWeek d) = 1"
  unfolding startOfWeek_alt getDay_def by presburger

lemma getDay_sunday: "getDay (startOfWeek d + 6) = 0"
  unfolding startOfWeek_alt getDay_def by presburger

lemma startOfWeek_bounds: "startOfWeek d \<le> d \<and> d \<le> startOfWeek d + 6"
  unfolding startOfWeek_alt by presburger

lemma endOfWeek_startOfWeek: "endOfWeek (startOfWeek d) = startOfWeek d + 6"
  unfolding endOfWeek_def getDay_def startOfWeek_alt by presburger

lemma isSameWeek_mondays:
  "isSameWeek (startOfWeek a) (startOfWeek b) \<longleftrightarrow> startOfWeek a = startOfWeek b"
  by (simp add: isSameWeek_def startOfWeek_idem)

subsection \<open>The loop\<close>

lemma flushWeek_open:
  "currentWeekStartDate l = Some (startOfWeek d) \<Longrightarrow> currentWeekMenus l \<noteq> [] \<Longrightarrow>
   flushWeek l = weeklyMenusAcc l @ [weekOf (startOfWeek d) (currentWeekMenus l)]"
  by (simp add: flushWeek_def weekOf_def newWeeklyMenu_def parseISO_format endOfWeek_startOfWeek)

lemma loop_runs:
  assumes "currentWeekStartDate l = Some (startOfWeek d)" and "currentWeekMenus l \<noteq> []"
  shows "flushWeek (foldl weekLoopBody l xs) =
         weeklyMenusAcc l @ runs (startOfWeek d) (currentWeekMenus l) xs"
  using assms
proof (induction xs arbitrary: l d)
  case Nil
  then show ?case by (simp add: flushWeek_open)
next
  case (Cons x xs)
  show ?case
  proof (cases "weekKey x = startOfWeek d")
    case True
    then have b: "weekLoopBody l x = l \<lparr> currentWeekMenus := currentWeekMenus l @ [x] \<rparr>"
      using Cons.prems(1)
      by (simp add: weekLoopBody_def weekKey_def Let_def isSameWeek_mondays)
    have "flushWeek (foldl weekLoopBody (weekLoopBody l x) xs) =
          weeklyMenusAcc (weekLoopBody l x) @
          runs (startOfWeek d) (currentWeekMenus (weekLoopBody l x)) xs"
      by (rule Cons.IH) (simp_all add: b Cons.prems)
    with True show ?thesis by (simp add: b)
  next
    case False
    then have b: "weekLoopBody l x =
        \<lparr> weeklyMenusAcc = flushWeek l, currentWeekMenus = [x],
          currentWeekStartDate = Some (weekKey x) \<rparr>"
      using Cons.prems(1)
      by (simp add: weekLoopBody_def weekKey_def Let_def isSameWeek_mondays)
    have "flushWeek (foldl weekLoopBody (weekLoopBody l x) xs) =
          weeklyMenusAcc (weekLoopBody l x) @
          runs (startOfWeek (DailyMenu.date x)) (currentWeekMenus (weekLoopBody l x)) xs"
      by (rule Cons.IH) (simp_all add: b weekKey_def)
    with False show ?thesis
      by (simp add: b weekKey_def flushWeek_open [OF Cons.prems])
  qed
qed

lemma loop_first:
  "flushWeek (foldl weekLoopBody
     \<lparr> weeklyMenusAcc = [], currentWeekMenus = [], currentWeekStartDate = None \<rparr> (x # xs)) =
   runs (weekKey x) [x] xs"
proof -
  have b: "weekLoopBody
     \<lparr> weeklyMenusAcc = [], currentWeekMenus = [], currentWeekStartDate = None \<rparr> x =
     \<lparr> weeklyMenusAcc = [], currentWeekMenus = [x],
       currentWeekStartDate = Some (startOfWeek (DailyMenu.date x)) \<rparr>"
    by (simp add: weekLoopBody_def Let_def flushWeek_def)
  have "flushWeek (foldl weekLoopBody
      \<lparr> weeklyMenusAcc = [], currentWeekMenus = [x],
        currentWeekStartDate = Some (startOfWeek (DailyMenu.date x)) \<rparr> xs) =
     weeklyMenusAcc \<lparr> weeklyMenusAcc = [], currentWeekMenus = [x],
        currentWeekStartDate = Some (startOfWeek (DailyMenu.date x)) \<rparr> @
     runs (startOfWeek (DailyMenu.date x))
       (currentWeekMenus \<lparr> weeklyMenusAcc = [], currentWeekMenus = [x],
        currentWeekStartDate = Some (startOfWeek (DailyMenu.date x)) \<rparr>) xs"
    by (rule loop_runs) simp_all
  then show ?thesis
    by (simp add: b weekKey_def)
qed

lemma runs_flat: "concat (map WeeklyMenu.dailyMenus (runs k ms xs)) = ms @ xs"
  by (induction xs arbitrary: k ms) (simp_all add: weekOf_def)

lemma sorted_list_of_set_insert_least:
  fixes k :: int
  assumes "finite A" and "\<forall>a \<in> A. k < a"
  shows "sorted_list_of_set (insert k A) = k # sorted_list_of_set A"
proof (rule sorted_distinct_set_unique)
  show "sorted (k # sorted_list_of_set A)"
    using assms by (auto simp add: less_imp_le)
  show "distinct (k # sorted_list_of_set A)"
    using assms by auto
  have "finite (insert k A)" using assms(1) by simp
  then show "set (sorted_list_of_set (insert k A)) = set (k # sorted_list_of_set A)"
    using assms(1) by (simp only: set_sorted_list_of_set list.set)
  show "sorted (sorted_list_of_set (insert k A))"
    by (rule sorted_sorted_list_of_set)
  show "distinct (sorted_list_of_set (insert k A))"
    by (rule distinct_sorted_list_of_set)
qed

lemma runs_sorted:
  assumes "ms \<noteq> []" and "\<forall>m \<in> set ms. weekKey m = k"
    and "sorted (map weekKey xs)" and "\<forall>x \<in> set xs. k \<le> weekKey x"
  shows "runs k ms xs =
         map (\<lambda>k'. weekOf k' (filter (\<lambda>m. weekKey m = k') (ms @ xs)))
           (sorted_list_of_set (weekKey ` set (ms @ xs)))"
  using assms
proof (induction xs arbitrary: k ms)
  case Nil
  then have "weekKey ` set ms = {k}" by (cases ms) auto
  moreover have "filter (\<lambda>m. weekKey m = k) ms = ms"
    using Nil.prems(2) by (simp add: filter_id_conv)
  ultimately show ?case by simp
next
  case (Cons x xs)
  have later: "\<forall>y \<in> set xs. weekKey x \<le> weekKey y"
    using Cons.prems(3) by simp
  have srt: "sorted (map weekKey xs)"
    using Cons.prems(3) by simp
  show ?case
  proof (cases "weekKey x = k")
    case True
    have "runs k (ms @ [x]) xs =
          map (\<lambda>k'. weekOf k' (filter (\<lambda>m. weekKey m = k') ((ms @ [x]) @ xs)))
            (sorted_list_of_set (weekKey ` set ((ms @ [x]) @ xs)))"
      using Cons.prems True srt by (intro Cons.IH) auto
    with True show ?thesis by simp
  next
    case False
    then have lt: "k < weekKey x" using Cons.prems(4) by fastforce
    define A where "A = weekKey ` set (x # xs)"
    have fin: "finite A" by (simp add: A_def)
    have above: "\<forall>a \<in> A. k < a" using lt later by (auto simp add: A_def)
    have keys: "weekKey ` set (ms @ x # xs) = insert k A"
      using Cons.prems(1,2) by (cases ms) (auto simp add: A_def)
    have sl: "sorted_list_of_set (weekKey ` set (ms @ x # xs)) = k # sorted_list_of_set A"
      unfolding keys using fin above by (rule sorted_list_of_set_insert_least)
    have fk: "filter (\<lambda>m. weekKey m = k) (ms @ x # xs) = ms"
    proof -
      have "filter (\<lambda>m. weekKey m = k) ms = ms"
        using Cons.prems(2) by (simp add: filter_id_conv)
      moreover have "filter (\<lambda>m. weekKey m = k) (x # xs) = []"
        using above by (auto simp add: A_def filter_empty_conv)
      ultimately show ?thesis by simp
    qed
    have fo: "filter (\<lambda>m. weekKey m = k') (ms @ x # xs) = filter (\<lambda>m. weekKey m = k') (x # xs)"
      if "k' \<in> A" for k'
    proof -
      have "k' \<noteq> k" using above that by auto
      then have "filter (\<lambda>m. weekKey m = k') ms = []"
        using Cons.prems(2) by (auto simp add: filter_empty_conv)
      then show ?thesis by simp
    qed
    have ih: "runs (weekKey x) [x] xs =
          map (\<lambda>k'. weekOf k' (filter (\<lambda>m. weekKey m = k') ([x] @ xs)))
            (sorted_list_of_set (weekKey ` set ([x] @ xs)))"
      using srt later by (intro Cons.IH) auto
    have "map (\<lambda>k'. weekOf k' (filter (\<lambda>m. weekKey m = k') (ms @ x # xs))) (sorted_list_of_set A) =
          map (\<lambda>k'. weekOf k' (filter (\<lambda>m. weekKey m = k') (x # xs))) (sorted_list_of_set A)"
      using fin fo by (intro map_cong) auto
    with False ih sl fk show ?thesis by (simp add: A_def)
  qed
qed

lemma sorted_weekKeys: "sorted (map weekKey (sort_key DailyMenu.date dms))"
proof -
  have "sorted (map DailyMenu.date (sort_key DailyMenu.date dms))" by simp
  then have "sorted_wrt (\<lambda>a b. DailyMenu.date a \<le> DailyMenu.date b) (sort_key DailyMenu.date dms)"
    by (simp add: sorted_map)
  then have "sorted_wrt (\<lambda>a b. weekKey a \<le> weekKey b) (sort_key DailyMenu.date dms)"
    by (rule sorted_wrt_mono_rel [rotated]) (simp add: weekKey_def startOfWeek_mono)
  then show ?thesis by (simp add: sorted_map)
qed

lemma group_runs:
  assumes "sort_key DailyMenu.date dms = x # xs"
  shows "groupDailyMenusByWeek dms = runs (weekKey x) [x] xs"
proof -
  have "dms \<noteq> []" using assms by auto
  then show ?thesis
    using assms by (simp add: groupDailyMenusByWeek_def Let_def loop_first del: foldl_Cons)
qed

lemma groupDailyMenusByWeek_buckets: "groupDailyMenusByWeek dms = weekBuckets dms"
proof (cases "sort_key DailyMenu.date dms")
  case Nil
  then have "dms = []" by (metis length_sort length_0_conv)
  then show ?thesis by (simp add: groupDailyMenusByWeek_def weekBuckets_def)
next
  case (Cons x xs)
  have s: "sorted (map weekKey (x # xs))"
    using sorted_weekKeys [of dms] by (simp add: Cons)
  have "runs (weekKey x) [x] xs =
        map (\<lambda>k'. weekOf k' (filter (\<lambda>m. weekKey m = k') ([x] @ xs)))
          (sorted_list_of_set (weekKey ` set ([x] @ xs)))"
    using s by (intro runs_sorted) auto
  also have "[x] @ xs = sort_key DailyMenu.date dms"
    by (simp add: Cons)
  finally have "runs (weekKey x) [x] xs =
        map (\<lambda>k'. weekOf k' (filter (\<lambda>m. weekKey m = k') (sort_key DailyMenu.date dms)))
          (sorted_list_of_set (weekKey ` set (sort_key DailyMenu.date dms)))" .
  then show ?thesis
    by (simp only: group_runs [OF Cons] weekBuckets_def filter_sort set_sort)
qed

lemma groupDailyMenusByWeek_flat:
  "concat (map WeeklyMenu.dailyMenus (groupDailyMenusByWeek dms)) = sort_key DailyMenu.date dms"
proof (cases "sort_key DailyMenu.date dms")
  case Nil
  then have "dms = []" by (metis length_sort length_0_conv)
  then show ?thesis by (simp add: groupDailyMenusByWeek_def)
next
  case (Cons x xs)
  then show ?thesis by (simp add: group_runs [OF Cons] runs_flat)
qed

lemma weekBuckets_member:
  assumes "w \<in> set (weekBuckets dms)"
  obtains m0 where "m0 \<in> set dms"
    and "w = weekOf (weekKey m0) (sort_key DailyMenu.date (filter (\<lambda>m. weekKey m = weekKey m0) dms))"
  using assms by (auto simp add: weekBuckets_def)

lemma weekBuckets_starts:
  "map WeeklyMenu.startDate (weekBuckets dms) = sorted_list_of_set (weekKey ` set dms)"
  by (simp add: weekBuckets_def weekOf_def comp_def)

lemma weekBuckets_bucket:
  assumes "w \<in> set (weekBuckets dms)"
  shows "getDay (WeeklyMenu.startDate w) = 1 \<and>
         WeeklyMenu.endDate w = WeeklyMenu.startDate w + 6 \<and>
         getDay (WeeklyMenu.endDate w) = 0 \<and>
         WeeklyMenu.dailyMenus w \<noteq> [] \<and>
         set (WeeklyMenu.dailyMenus w) =
           {m \<in> set dms. startOfWeek (DailyMenu.date m) = WeeklyMenu.startDate w}"
proof -
  from assms obtain m0 where m0: "m0 \<in> set dms"
    and w: "w = weekOf (weekKey m0)
                  (sort_key DailyMenu.date (filter (\<lambda>m. weekKey m = weekKey m0) dms))"
    by (rule weekBuckets_member)
  have "m0 \<in> set (WeeklyMenu.dailyMenus w)" using m0 by (simp add: w weekOf_def)
  then have "WeeklyMenu.dailyMenus w \<noteq> []" by auto
  then show ?thesis
    by (auto simp add: w weekOf_def weekKey_def getDay_startOfWeek getDay_sunday)
qed

lemma weekBuckets_members_in_range:
  assumes "w \<in> set (weekBuckets dms)" and "m \<in> set (WeeklyMenu.dailyMenus w)"
  shows "m \<in> set dms \<and> startOfWeek (DailyMenu.date m) = WeeklyMenu.startDate w \<and>
         WeeklyMenu.startDate w \<le> DailyMenu.date m \<and> DailyMenu.date m \<le> WeeklyMenu.endDate w"
proof -
  have b: "WeeklyMenu.endDate w = WeeklyMenu.startDate w + 6"
    "set (WeeklyMenu.dailyMenus w) =
       {m \<in> set dms. startOfWeek (DailyMenu.date m) = WeeklyMenu.startDate w}"
    using weekBuckets_bucket [OF assms(1)] by simp_all
  with assms(2) have m: "m \<in> set dms" "startOfWeek (DailyMenu.date m) = WeeklyMenu.startDate w"
    by simp_all
  with b startOfWeek_bounds [of "DailyMenu.date m"] show ?thesis by simp
qed

lemma weekBuckets_ascending: "sorted_wrt (<) (map WeeklyMenu.startDate (weekBuckets dms))"
  by (simp add: weekBuckets_starts strict_sorted_iff)

text \<open>
  Claim C8. For every list of daily menus the bucketer returns the buckets of the
  specification. Every bucket starts on the Monday of the week of its members, ends six
  days later on the Sunday, is not empty and holds exactly the menus of the input that
  fall in its week, each with a date from the start to the end of the bucket. The
  buckets come in strictly ascending order of their start dates, one for each week that
  has a menu in the input and none for any other week, and together they hold the input.
\<close>

theorem week_buckets_invariants:
  "groupDailyMenusByWeek dms = weekBuckets dms \<and>
   (\<forall>w \<in> set (groupDailyMenusByWeek dms).
      getDay (WeeklyMenu.startDate w) = 1 \<and>
      WeeklyMenu.endDate w = WeeklyMenu.startDate w + 6 \<and>
      getDay (WeeklyMenu.endDate w) = 0 \<and>
      WeeklyMenu.dailyMenus w \<noteq> [] \<and>
      set (WeeklyMenu.dailyMenus w) =
        {m \<in> set dms. startOfWeek (DailyMenu.date m) = WeeklyMenu.startDate w} \<and>
      (\<forall>m \<in> set (WeeklyMenu.dailyMenus w).
         m \<in> set dms \<and> startOfWeek (DailyMenu.date m) = WeeklyMenu.startDate w \<and>
         WeeklyMenu.startDate w \<le> DailyMenu.date m \<and> DailyMenu.date m \<le> WeeklyMenu.endDate w)) \<and>
   sorted_wrt (<) (map WeeklyMenu.startDate (groupDailyMenusByWeek dms)) \<and>
   set (map WeeklyMenu.startDate (groupDailyMenusByWeek dms)) =
     (\<lambda>m. startOfWeek (DailyMenu.date m)) ` set dms \<and>
   mset (concat (map WeeklyMenu.dailyMenus (groupDailyMenusByWeek dms))) = mset dms"
proof -
  have s: "set (map WeeklyMenu.startDate (weekBuckets dms)) =
     (\<lambda>m. startOfWeek (DailyMenu.date m)) ` set dms"
    by (simp only: weekBuckets_starts) (simp add: weekKey_def [abs_def])
  have f: "mset (concat (map WeeklyMenu.dailyMenus (groupDailyMenusByWeek dms))) = mset dms"
    by (simp add: groupDailyMenusByWeek_flat)
  show ?thesis
    using weekBuckets_bucket [of _ dms] weekBuckets_members_in_range [of _ dms]
      weekBuckets_ascending [of dms] s f
    unfolding groupDailyMenusByWeek_buckets by blast
qed

lemma weekBuckets_perm:
  assumes "mset ys = mset xs"
  shows "map (\<lambda>w. (WeeklyMenu.startDate w, WeeklyMenu.endDate w)) (weekBuckets ys) =
         map (\<lambda>w. (WeeklyMenu.startDate w, WeeklyMenu.endDate w)) (weekBuckets xs)"
    and "map (\<lambda>w. set (WeeklyMenu.dailyMenus w)) (weekBuckets ys) =
         map (\<lambda>w. set (WeeklyMenu.dailyMenus w)) (weekBuckets xs)"
proof -
  have s: "set ys = set xs" using assms by (rule mset_eq_setD)
  show "map (\<lambda>w. (WeeklyMenu.startDate w, WeeklyMenu.endDate w)) (weekBuckets ys) =
        map (\<lambda>w. (WeeklyMenu.startDate w, WeeklyMenu.endDate w)) (weekBuckets xs)"
    by (simp add: weekBuckets_def weekOf_def comp_def s)
  show "map (\<lambda>w. set (WeeklyMenu.dailyMenus w)) (weekBuckets ys) =
        map (\<lambda>w. set (WeeklyMenu.dailyMenus w)) (weekBuckets xs)"
    by (simp add: weekBuckets_def weekOf_def comp_def s)
qed

lemma weekBuckets_sorted_input:
  "weekBuckets (sort_key DailyMenu.date xs) = weekBuckets xs"
proof -
  have "sort_key DailyMenu.date (filter P (sort_key DailyMenu.date xs)) =
        sort_key DailyMenu.date (filter P xs)" for P
    by (simp add: filter_sort sort_key_id_if_sorted)
  then show ?thesis by (simp add: weekBuckets_def)
qed

text \<open>
  Claim C9. Bucketing a permutation of a list gives buckets with the same pairs of start
  and end date and the same sets of members as bucketing the list, in ascending order of
  the start dates; and bucketing the concatenation of the buckets of a list gives the
  same buckets again.
\<close>

theorem week_bucketing_order_independent:
  "(mset ys = mset xs \<longrightarrow>
      map (\<lambda>w. (WeeklyMenu.startDate w, WeeklyMenu.endDate w)) (groupDailyMenusByWeek ys) =
      map (\<lambda>w. (WeeklyMenu.startDate w, WeeklyMenu.endDate w)) (groupDailyMenusByWeek xs) \<and>
      map (\<lambda>w. set (WeeklyMenu.dailyMenus w)) (groupDailyMenusByWeek ys) =
      map (\<lambda>w. set (WeeklyMenu.dailyMenus w)) (groupDailyMenusByWeek xs)) \<and>
   sorted_wrt (<) (map WeeklyMenu.startDate (groupDailyMenusByWeek xs)) \<and>
   groupDailyMenusByWeek (concat (map WeeklyMenu.dailyMenus (groupDailyMenusByWeek xs))) =
     groupDailyMenusByWeek xs"
proof -
  have i: "groupDailyMenusByWeek (concat (map WeeklyMenu.dailyMenus (groupDailyMenusByWeek xs))) =
     groupDailyMenusByWeek xs"
    by (simp add: groupDailyMenusByWeek_flat)
       (simp add: groupDailyMenusByWeek_buckets weekBuckets_sorted_input)
  show ?thesis
    using weekBuckets_perm [of ys xs] weekBuckets_ascending [of xs] i
    unfolding groupDailyMenusByWeek_buckets by blast
qed

lemma january_groups:
  "map (\<lambda>w. (WeeklyMenu.startDate w, WeeklyMenu.endDate w, map DailyMenu.date (WeeklyMenu.dailyMenus w)))
     (groupDailyMenusByWeek januaryMenus) =
   [(newDate 2024 0 1, newDate 2024 0 7, [newDate 2024 0 3]),
    (newDate 2024 0 8, newDate 2024 0 14, [newDate 2024 0 8, newDate 2024 0 10])]"
  by code_simp

theorem week_buckets_invariants_witness:
  "groupDailyMenusByWeek januaryMenus = weekBuckets januaryMenus \<and>
   map (\<lambda>w. (WeeklyMenu.startDate w, WeeklyMenu.endDate w,
              map DailyMenu.date (WeeklyMenu.dailyMenus w)))
     (groupDailyMenusByWeek januaryMenus) =
   [(newDate 2024 0 1, newDate 2024 0 7, [newDate 2024 0 3]),
    (newDate 2024 0 8, newDate 2024 0 14, [newDate 2024 0 8, newDate 2024 0 10])] \<and>
   list_all (\<lambda>w. getDay (WeeklyMenu.startDate w) = 1 \<and>
                  WeeklyMenu.endDate w = WeeklyMenu.startDate w + 6 \<and>
                  list_all (\<lambda>m. WeeklyMenu.startDate w \<le> DailyMenu.date m \<and>
                                 DailyMenu.date m \<le> WeeklyMenu.endDate w)
                    (WeeklyMenu.dailyMenus w))
     (groupDailyMenusByWeek januaryMenus) \<and>
   sorted_wrt (<) (map WeeklyMenu.startDate (groupDailyMenusByWeek januaryMenus))"
proof -
  note t = week_buckets_invariants [of januaryMenus]
  have a: "groupDailyMenusByWeek januaryMenus = weekBuckets januaryMenus"
    using t by (rule conjunct1)
  have s: "sorted_wrt (<) (map WeeklyMenu.startDate (groupDailyMenusByWeek januaryMenus))"
    using t by (elim conjE)
  have b: "list_all (\<lambda>w. getDay (WeeklyMenu.startDate w) = 1 \<and>
                  WeeklyMenu.endDate w = WeeklyMenu.startDate w + 6 \<and>
                  list_all (\<lambda>m. WeeklyMenu.startDate w \<le> DailyMenu.date m \<and>
                                 DailyMenu.date m \<le> WeeklyMenu.endDate w)
                    (WeeklyMenu.dailyMenus w))
     (groupDailyMenusByWeek januaryMenus)"
    unfolding list_all_iff
  proof (intro ballI conjI)
    fix w assume w: "w \<in> set (groupDailyMenusByWeek januaryMenus)"
    note f = conjunct1 [OF conjunct2 [OF t], rule_format, OF w]
    show "getDay (WeeklyMenu.startDate w) = 1" using f by (elim conjE)
    show "WeeklyMenu.endDate w = WeeklyMenu.startDate w + 6" using f by (elim conjE)
    fix m assume m: "m \<in> set (WeeklyMenu.dailyMenus w)"
    have g: "\<forall>m \<in> set (WeeklyMenu.dailyMenus w).
         m \<in> set januaryMenus \<and> startOfWeek (DailyMenu.date m) = WeeklyMenu.startDate w \<and>
         WeeklyMenu.startDate w \<le> DailyMenu.date m \<and> DailyMenu.date m \<le> WeeklyMenu.endDate w"
      using f by (elim conjE)
    show "WeeklyMenu.startDate w \<le> DailyMenu.date m" using g m by blast
    show "DailyMenu.date m \<le> WeeklyMenu.endDate w" using g m by blast
  qed
  show ?thesis
    using a s b january_groups by (intro conjI)
qed

theorem week_bucketing_order_independent_witness:
  "mset januaryMenusShuffled = mset januaryMenus \<and>
   januaryMenusShuffled \<noteq> januaryMenus \<and>
   map (\<lambda>w. (WeeklyMenu.startDate w, WeeklyMenu.endDate w)) (groupDailyMenusByWeek januaryMenusShuffled) =
   map (\<lambda>w. (WeeklyMenu.startDate w, WeeklyMenu.endDate w)) (groupDailyMenusByWeek januaryMenus) \<and>
   map (\<lambda>w. set (WeeklyMenu.dailyMenus w)) (groupDailyMenusByWeek januaryMenusShuffled) =
   map (\<lambda>w. set (WeeklyMenu.dailyMenus w)) (groupDailyMenusByWeek januaryMenus) \<and>
   length (groupDailyMenusByWeek januaryMenus) = 2 \<and>
   groupDailyMenusByWeek (concat (map WeeklyMenu.dailyMenus (groupDailyMenusByWeek januaryMenus))) =
     groupDailyMenusByWeek januaryMenus"
proof -
  note t = week_bucketing_order_independent [of januaryMenusShuffled januaryMenus]
  have p: "mset januaryMenusShuffled = mset januaryMenus"
    by (simp add: januaryMenusShuffled_def januaryMenus_def)
  have n: "januaryMenusShuffled \<noteq> januaryMenus"
    by code_simp
  have l: "length (groupDailyMenusByWeek januaryMenus) = 2"
    using january_groups [THEN arg_cong, of length] by simp
  have ab: "map (\<lambda>w. (WeeklyMenu.startDate w, WeeklyMenu.endDate w)) (groupDailyMenusByWeek januaryMenusShuffled) =
      map (\<lambda>w. (WeeklyMenu.startDate w, WeeklyMenu.endDate w)) (groupDailyMenusByWeek januaryMenus) \<and>
      map (\<lambda>w. set (WeeklyMenu.dailyMenus w)) (groupDailyMenusByWeek januaryMenusShuffled) =
      map (\<lambda>w. set (WeeklyMenu.dailyMenus w)) (groupDailyMenusByWeek januaryMenus)"
    using conjunct1 [OF t] p by (rule mp)
  have i: "groupDailyMenusByWeek (concat (map WeeklyMenu.dailyMenus (groupDailyMenusByWeek januaryMenus))) =
     groupDailyMenusByWeek januaryMenus"
    using t by (elim conjE)
  show ?thesis
    using p n l i conjunct1 [OF ab] conjunct2 [OF ab] by (intro conjI)
qed

end
